theory Spec2Isabelle
  imports Main "HOL-Library.Sublist"
begin

section \<open>The model registry reconciler\<close>

text \<open>
  A shallow embedding of \<^verbatim>\<open>internal/controller/modelregistry_controller.go\<close>.
  The controller talks to the Kubernetes API server through a client; the cluster is
  modelled as an explicit state that every client call takes and returns. Go's
  \<^verbatim>\<open>error\<close> results are values of \<open>error option\<close> (\<open>None\<close> is \<^verbatim>\<open>nil\<close>), and a call that
  returns an object or an error returns \<open>error + object\<close>.
\<close>

subsection \<open>Errors\<close>

datatype error = NotFound | Conflict | AlreadyExists | Other string

text \<open>\<^verbatim>\<open>errors.IsNotFound\<close> and \<^verbatim>\<open>errors.IsConflict\<close> of apimachinery.\<close>

definition IsNotFound :: "error \<Rightarrow> bool" where
  "IsNotFound e = (e = NotFound)"

definition IsConflict :: "error \<Rightarrow> bool" where
  "IsConflict e = (e = Conflict)"

text \<open>\<^verbatim>\<open>client.IgnoreNotFound\<close> of controller-runtime.\<close>

definition IgnoreNotFound :: "error option \<Rightarrow> error option" where
  "IgnoreNotFound err =
     (case err of None \<Rightarrow> None
      | Some e \<Rightarrow> if IsNotFound e then None else Some e)"

text \<open>
  \<^verbatim>\<open>
  func IgnoreDeletingErrors(err error) error {
      if err == nil { return nil }
      if errors.IsNotFound(err) || errors.IsConflict(err) { return nil }
      return err
  }
  \<close>
\<close>

definition IgnoreDeletingErrors :: "error option \<Rightarrow> error option" where
  "IgnoreDeletingErrors err =
     (case err of None \<Rightarrow> None
      | Some e \<Rightarrow> if IsNotFound e \<or> IsConflict e then None else Some e)"

subsection \<open>Constants of the controller\<close>

definition modelRegistryFinalizer :: string where
  "modelRegistryFinalizer = ''modelregistry.opendatahub.io/finalizer''"

definition ConditionTypeAvailable :: string where
  "ConditionTypeAvailable = ''Available''"

definition ConditionTypeProgressing :: string where
  "ConditionTypeProgressing = ''Progressing''"

definition ConditionTypeDegraded :: string where
  "ConditionTypeDegraded = ''Degraded''"

definition ReasonCreated :: string where
  "ReasonCreated = ''CreatedDeployment''"

definition ReasonCreating :: string where
  "ReasonCreating = ''CreatingDeployment''"

definition ReasonUpdating :: string where
  "ReasonUpdating = ''UpdatingDeployment''"

definition ReasonAvailable :: string where
  "ReasonAvailable = ''DeploymentAvailable''"

definition ReasonUnavailable :: string where
  "ReasonUnavailable = ''DeploymentUnavailable''"

text \<open>\<^verbatim>\<open>appsv1.DeploymentAvailable\<close>, the condition type a Deployment reports.\<close>

definition DeploymentAvailable :: string where
  "DeploymentAvailable = ''Available''"

datatype OperationResult = ResourceUnchanged | ResourceCreated | ResourceUpdated

subsection \<open>Objects\<close>

datatype ConditionStatus = ConditionTrue | ConditionFalse | ConditionUnknown

text \<open>\<^verbatim>\<open>metav1.Condition\<close> (the time stamps and the observed generation are left out).\<close>

record Condition =
  Type :: string
  Status :: ConditionStatus
  Reason :: string
  Message :: string

text \<open>\<^verbatim>\<open>appsv1.DeploymentCondition\<close>, as far as the controller reads it.\<close>

record DeploymentCondition =
  dcType :: string
  dcStatus :: ConditionStatus

type_synonym NamespacedName = "string \<times> string"

type_synonym ModelRegistrySpec = "(string \<times> string) list"

text \<open>
  The parent resource: identity, finalizer tokens, the optional deletion time stamp, the
  spec (opaque parameters of the renderer) and the conditions of its status.
\<close>

record ModelRegistry =
  Namespace :: string
  Name :: string
  Finalizers :: "string list"
  DeletionTimestamp :: "nat option"
  Spec :: ModelRegistrySpec
  Conditions :: "Condition list"

text \<open>The three managed resources, told apart by their Go types.\<close>

datatype ResourceType = ServiceAccountType | ServiceType | DeploymentType

text \<open>
  A value of a top-level field of a serialised object: the type meta data and the rendered
  fields are strings, the object meta data are name, namespace and controller reference,
  the status are the reported conditions.
\<close>

datatype FieldValue =
    FString string
  | FMetadata string string "NamespacedName option"
  | FStatus "DeploymentCondition list"

type_synonym Document = "(string \<times> FieldValue) list"

text \<open>
  A managed resource (\<^verbatim>\<open>client.Object\<close>): type meta data, name and namespace, the
  controller reference to the parent, the last-applied annotation, the rendered top-level
  fields (spec, data, ...) and the status a Deployment reports.
\<close>

record Object =
  oApiVersion :: string
  oKind :: string
  oNamespace :: string
  oName :: string
  oOwner :: "NamespacedName option"
  oLastApplied :: "Document option"
  oBody :: "(string \<times> string) list"
  oStatus :: "DeploymentCondition list"

definition ObjectKeyFromObject :: "Object \<Rightarrow> NamespacedName" where
  "ObjectKeyFromObject obj = (oNamespace obj, oName obj)"

text \<open>\<^verbatim>\<open>ctrl.Request\<close> is the namespaced name of the parent; \<^verbatim>\<open>ctrl.Result\<close> its answer.\<close>

record Result =
  Requeue :: bool

record ModelRegistryParams =
  pName :: string
  pNamespace :: string
  pSpec :: ModelRegistrySpec

subsection \<open>The cluster and the client\<close>

text \<open>
  The API server is a collaborator outside the controller. Its calls follow the contract
  of the object store client (get, create, update, status update, each answering an error
  or serving the call from the store); which calls fail, and with which error, is a
  parameter of the cluster.

  A call the reconciler issues: to the API server, or to the event recorder. The cluster
  keeps them in the order they were issued.
\<close>

datatype Call =
    GetRegistry NamespacedName
  | UpdateRegistry ModelRegistry
  | UpdateRegistryStatus ModelRegistry
  | GetObject ResourceType NamespacedName
  | CreateObject ResourceType Object
  | UpdateObject ResourceType Object
  | RecordEvent string string string

text \<open>
  The cluster: the stored parents and managed resources, the outcome the API server forces
  on each of the next calls (\<open>Some e\<close>: the call fails with \<open>e\<close> and changes nothing; \<open>None\<close>,
  or no entry left: the call is served from the store), and the calls issued so far.
\<close>

record Cluster =
  registries :: "NamespacedName \<Rightarrow> ModelRegistry option"
  objects :: "ResourceType \<times> NamespacedName \<Rightarrow> Object option"
  faults :: "error option list"
  calls :: "Call list"

definition issue :: "Call \<Rightarrow> Cluster \<Rightarrow> Cluster" where
  "issue c s = s\<lparr>calls := calls s @ [c]\<rparr>"

definition serve :: "Call \<Rightarrow> Cluster \<Rightarrow> error option \<times> Cluster" where
  "serve c s =
     (case faults s of
        [] \<Rightarrow> (None, issue c s)
      | f # fs \<Rightarrow> (f, issue c (s\<lparr>faults := fs\<rparr>)))"

text \<open>\<^verbatim>\<open>r.Get(ctx, key, modelRegistry)\<close>: the stored parent, or NotFound.\<close>

definition Get :: "NamespacedName \<Rightarrow> Cluster \<Rightarrow> (error + ModelRegistry) \<times> Cluster" where
  "Get key s =
     (case serve (GetRegistry key) s of
        (Some e, s1) \<Rightarrow> (Inl e, s1)
      | (None, s1) \<Rightarrow>
          (case registries s1 key of
             None \<Rightarrow> (Inl NotFound, s1)
           | Some m \<Rightarrow> (Inr m, s1)))"

text \<open>
  \<^verbatim>\<open>r.Update(ctx, modelRegistry)\<close>: replaces the stored parent but for its status and its
  deletion time stamp, which an update of the main resource does not write. The store
  removes a parent marked for deletion once its finalizers are empty. The answer is the
  object as stored, which the Go client writes back into the caller's object.
\<close>

definition Update :: "ModelRegistry \<Rightarrow> Cluster \<Rightarrow> (error + ModelRegistry) \<times> Cluster" where
  "Update m s =
     (case serve (UpdateRegistry m) s of
        (Some e, s1) \<Rightarrow> (Inl e, s1)
      | (None, s1) \<Rightarrow>
          (case registries s1 (Namespace m, Name m) of
             None \<Rightarrow> (Inl NotFound, s1)
           | Some live \<Rightarrow>
               (let stored = m\<lparr>Conditions := Conditions live,
                                DeletionTimestamp := DeletionTimestamp live\<rparr>
                in (Inr stored,
                    s1\<lparr>registries := (registries s1)((Namespace m, Name m) :=
                          (if DeletionTimestamp stored \<noteq> None \<and> Finalizers stored = []
                           then None else Some stored))\<rparr>))))"

text \<open>\<^verbatim>\<open>r.Status().Update(ctx, modelRegistry)\<close>: writes the status of the stored parent only.\<close>

definition StatusUpdate :: "ModelRegistry \<Rightarrow> Cluster \<Rightarrow> (error + ModelRegistry) \<times> Cluster" where
  "StatusUpdate m s =
     (case serve (UpdateRegistryStatus m) s of
        (Some e, s1) \<Rightarrow> (Inl e, s1)
      | (None, s1) \<Rightarrow>
          (case registries s1 (Namespace m, Name m) of
             None \<Rightarrow> (Inl NotFound, s1)
           | Some live \<Rightarrow>
               (let stored = live\<lparr>Conditions := Conditions m\<rparr>
                in (Inr stored,
                    s1\<lparr>registries := (registries s1)((Namespace m, Name m) := Some stored)\<rparr>))))"

text \<open>The same three calls on a managed resource of a given type.\<close>

definition ClientGet ::
  "ResourceType \<Rightarrow> NamespacedName \<Rightarrow> Cluster \<Rightarrow> (error + Object) \<times> Cluster" where
  "ClientGet t key s =
     (case serve (GetObject t key) s of
        (Some e, s1) \<Rightarrow> (Inl e, s1)
      | (None, s1) \<Rightarrow>
          (case objects s1 (t, key) of
             None \<Rightarrow> (Inl NotFound, s1)
           | Some obj \<Rightarrow> (Inr obj, s1)))"

definition ClientCreate :: "ResourceType \<Rightarrow> Object \<Rightarrow> Cluster \<Rightarrow> error option \<times> Cluster" where
  "ClientCreate t obj s =
     (case serve (CreateObject t obj) s of
        (Some e, s1) \<Rightarrow> (Some e, s1)
      | (None, s1) \<Rightarrow>
          (case objects s1 (t, ObjectKeyFromObject obj) of
             Some live \<Rightarrow> (Some AlreadyExists, s1)
           | None \<Rightarrow>
               (None, s1\<lparr>objects := (objects s1)((t, ObjectKeyFromObject obj) := Some obj)\<rparr>)))"

definition ClientUpdate :: "ResourceType \<Rightarrow> Object \<Rightarrow> Cluster \<Rightarrow> error option \<times> Cluster" where
  "ClientUpdate t obj s =
     (case serve (UpdateObject t obj) s of
        (Some e, s1) \<Rightarrow> (Some e, s1)
      | (None, s1) \<Rightarrow>
          (case objects s1 (t, ObjectKeyFromObject obj) of
             None \<Rightarrow> (Some NotFound, s1)
           | Some live \<Rightarrow>
               (None, s1\<lparr>objects := (objects s1)((t, ObjectKeyFromObject obj) :=
                                Some (obj\<lparr>oStatus := oStatus live\<rparr>))\<rparr>)))"

text \<open>\<^verbatim>\<open>r.Recorder.Event(registry, eventtype, reason, message)\<close>: fire and forget.\<close>

definition Event :: "string \<Rightarrow> string \<Rightarrow> string \<Rightarrow> Cluster \<Rightarrow> Cluster" where
  "Event eventtype reason msg s = issue (RecordEvent eventtype reason msg) s"

subsection \<open>Helpers of controller-runtime and apimachinery\<close>

text \<open>
  \<^verbatim>\<open>controllerutil.ContainsFinalizer\<close>, \<^verbatim>\<open>AddFinalizer\<close> and \<^verbatim>\<open>RemoveFinalizer\<close>: the two
  that change the object also report whether the list of finalizers changed.
\<close>

definition ContainsFinalizer :: "ModelRegistry \<Rightarrow> string \<Rightarrow> bool" where
  "ContainsFinalizer m f = (f \<in> set (Finalizers m))"

definition AddFinalizer :: "ModelRegistry \<Rightarrow> string \<Rightarrow> bool \<times> ModelRegistry" where
  "AddFinalizer m f =
     (if f \<in> set (Finalizers m) then (False, m)
      else (True, m\<lparr>Finalizers := Finalizers m @ [f]\<rparr>))"

definition RemoveFinalizer :: "ModelRegistry \<Rightarrow> string \<Rightarrow> bool \<times> ModelRegistry" where
  "RemoveFinalizer m f =
     (let kept = filter (\<lambda>x. x \<noteq> f) (Finalizers m)
      in (length (Finalizers m) \<noteq> length kept, m\<lparr>Finalizers := kept\<rparr>))"

text \<open>
  \<^verbatim>\<open>meta.SetStatusCondition\<close>: the first condition of the same type is replaced, a condition
  of a new type is appended.
\<close>

fun SetStatusCondition :: "Condition list \<Rightarrow> Condition \<Rightarrow> Condition list" where
  "SetStatusCondition [] c = [c]"
| "SetStatusCondition (x # xs) c =
     (if Type x = Type c then c # xs else x # SetStatusCondition xs c)"

text \<open>\<^verbatim>\<open>meta.FindStatusCondition\<close>: the first condition of a type.\<close>

fun FindStatusCondition :: "Condition list \<Rightarrow> string \<Rightarrow> Condition option" where
  "FindStatusCondition [] t = None"
| "FindStatusCondition (x # xs) t =
     (if Type x = t then Some x else FindStatusCondition xs t)"

text \<open>\<^verbatim>\<open>fmt.Sprintf\<close> for formats whose only verb is \<^verbatim>\<open>%s\<close>.\<close>

fun Sprintf :: "string \<Rightarrow> string list \<Rightarrow> string" where
  "Sprintf [] args = []"
| "Sprintf (c # cs) args =
     (if c = CHR ''%'' \<and> take 1 cs = ''s'' then
        (case args of
           [] \<Rightarrow> ''%!s(MISSING)'' @ Sprintf (drop 1 cs) []
         | a # rest \<Rightarrow> a @ Sprintf (drop 1 cs) rest)
      else c # Sprintf cs args)"

text \<open>The object a call leaves in the caller's hands, and the error it returned.\<close>

definition errorOf :: "error + 'a \<Rightarrow> error option" where
  "errorOf res = (case res of Inl e \<Rightarrow> Some e | Inr x \<Rightarrow> None)"

definition objectAfter :: "'a \<Rightarrow> error + 'a \<Rightarrow> 'a" where
  "objectAfter m res = (case res of Inl e \<Rightarrow> m | Inr stored \<Rightarrow> stored)"

subsection \<open>The reconciler and its collaborators\<close>

text \<open>
  The fields of \<^verbatim>\<open>ModelRegistryReconciler\<close> that decide what it does, and the collaborators
  whose code is outside the controller, taken as parameters: the template set
  (\<^verbatim>\<open>r.Template.ExecuteTemplate\<close>), the decoder of its output (\<^verbatim>\<open>yaml.Unmarshal\<close>), the
  defaults of the spec (\<^verbatim>\<open>modelRegistry.Default()\<close>), and the inputs on which setting the
  controller reference, writing the last-applied annotation and calculating the patch
  fail.
\<close>

record ModelRegistryReconciler =
  ExecuteTemplate :: "string \<Rightarrow> ModelRegistryParams \<Rightarrow> string + string"
  Unmarshal :: "ResourceType \<Rightarrow> string \<Rightarrow> string + Object"
  EnableWebhooks :: bool
  Default :: "ModelRegistry \<Rightarrow> ModelRegistry"
  ownerReferenceError :: "ModelRegistry \<Rightarrow> Object \<Rightarrow> error option"
  annotationError :: "Object \<Rightarrow> error option"
  calculateError :: "Object \<Rightarrow> Object \<Rightarrow> error option"

text \<open>
  \<^verbatim>\<open>ctrl.SetControllerReference(registry, &object, r.Scheme)\<close>: the owner back-reference of
  the managed resource.
\<close>

definition SetControllerReference ::
  "ModelRegistryReconciler \<Rightarrow> ModelRegistry \<Rightarrow> Object \<Rightarrow> error + Object" where
  "SetControllerReference r owner obj =
     (case ownerReferenceError r owner obj of
        Some e \<Rightarrow> Inl e
      | None \<Rightarrow> Inr (obj\<lparr>oOwner := Some (Namespace owner, Name owner)\<rparr>))"

subsection \<open>The annotator and the patch maker\<close>

text \<open>
  Modelled from the spec: the annotator and the patch maker of the k8s-objectmatcher
  library (\<^verbatim>\<open>patch.DefaultAnnotator\<close>, \<^verbatim>\<open>patch.DefaultPatchMaker\<close>), which the controller
  calls and whose code is not part of it. The annotation captures the full rendered
  object; the patch is the structural difference between the live and the intended
  object over the fields the renderer controls (those of the intended object and of the
  last-applied snapshot), the ignored fields left out.
\<close>

definition document :: "Object \<Rightarrow> Document" where
  "document obj =
     [(''apiVersion'', FString (oApiVersion obj)),
      (''kind'', FString (oKind obj)),
      (''metadata'', FMetadata (oNamespace obj) (oName obj) (oOwner obj)),
      (''status'', FStatus (oStatus obj))]
     @ map (\<lambda>(k, v). (k, FString v)) (oBody obj)"

definition SetLastAppliedAnnotation ::
  "ModelRegistryReconciler \<Rightarrow> Object \<Rightarrow> error + Object" where
  "SetLastAppliedAnnotation r obj =
     (case annotationError r obj of
        Some e \<Rightarrow> Inl e
      | None \<Rightarrow> Inr (obj\<lparr>oLastApplied := Some (document obj)\<rparr>))"

datatype CalculateOption = IgnoreStatusFields | IgnoreField string

fun ignoredField :: "CalculateOption \<Rightarrow> string" where
  "ignoredField IgnoreStatusFields = ''status''"
| "ignoredField (IgnoreField f) = f"

definition controlledFields :: "Object \<Rightarrow> Object \<Rightarrow> string list" where
  "controlledFields currObj newObj =
     remdups (map fst (document newObj)
              @ (case oLastApplied currObj of None \<Rightarrow> [] | Some d \<Rightarrow> map fst d))"

definition Calculate ::
  "ModelRegistryReconciler \<Rightarrow> Object \<Rightarrow> Object \<Rightarrow> CalculateOption list
     \<Rightarrow> error + string list" where
  "Calculate r currObj newObj opts =
     (case calculateError r currObj newObj of
        Some e \<Rightarrow> Inl e
      | None \<Rightarrow>
          Inr (filter (\<lambda>k. map_of (document currObj) k \<noteq> map_of (document newObj) k)
                 (filter (\<lambda>k. k \<notin> set (map ignoredField opts))
                    (controlledFields currObj newObj))))"

definition IsEmpty :: "string list \<Rightarrow> bool" where
  "IsEmpty patchResult = (patchResult = [])"

subsection \<open>The apply operation\<close>

text \<open>
  \<^verbatim>\<open>createOrUpdate(ctx, currObj, newObj)\<close>: \<open>currObj\<close> is a scratch copy that only gives the
  Go type to read into, here the resource type. The result is set before the annotation
  is written and the write is issued, and is returned with whatever error they give.
\<close>

definition createOrUpdate ::
  "ModelRegistryReconciler \<Rightarrow> ResourceType \<Rightarrow> Object \<Rightarrow> Cluster
     \<Rightarrow> (OperationResult \<times> error option) \<times> Cluster" where
  "createOrUpdate r t newObj s =
     (case ClientGet t (ObjectKeyFromObject newObj) s of
        (Inl err, s1) \<Rightarrow>
          (if IgnoreNotFound (Some err) = None then
             (case SetLastAppliedAnnotation r newObj of
                Inl e \<Rightarrow> ((ResourceCreated, Some e), s1)
              | Inr annotated \<Rightarrow>
                  (case ClientCreate t annotated s1 of
                     (e, s2) \<Rightarrow> ((ResourceCreated, e), s2)))
           else ((ResourceUnchanged, Some err), s1))
      | (Inr currObj, s1) \<Rightarrow>
          (case Calculate r currObj newObj
                  [IgnoreStatusFields, IgnoreField ''apiVersion'', IgnoreField ''kind''] of
             Inl e \<Rightarrow> ((ResourceUnchanged, Some e), s1)
           | Inr patchResult \<Rightarrow>
               (if \<not> IsEmpty patchResult then
                  (case SetLastAppliedAnnotation r newObj of
                     Inl e \<Rightarrow> ((ResourceUpdated, Some e), s1)
                   | Inr annotated \<Rightarrow>
                       (case ClientUpdate t annotated s1 of
                          (e, s2) \<Rightarrow> ((ResourceUpdated, e), s2)))
                else ((ResourceUnchanged, None), s1))))"

text \<open>
  What \<^verbatim>\<open>%T\<close> prints for the pointer the caller of \<^verbatim>\<open>Apply\<close> passes: the Go type of the
  managed resource.
\<close>

fun goTypeName :: "ResourceType \<Rightarrow> string" where
  "goTypeName ServiceAccountType = ''*v1.ServiceAccount''"
| "goTypeName ServiceType = ''*v1.Service''"
| "goTypeName DeploymentType = ''*v1.Deployment''"

text \<open>\<^verbatim>\<open>r.Apply(params, templateName, &object)\<close>: executes the template and decodes it.\<close>

definition Apply ::
  "ModelRegistryReconciler \<Rightarrow> ModelRegistryParams \<Rightarrow> string \<Rightarrow> ResourceType
     \<Rightarrow> error + Object" where
  "Apply r params templateName t =
     (case ExecuteTemplate r templateName params of
        Inl msg \<Rightarrow> Inl (Other (''error parsing templates '' @ msg))
      | Inr text \<Rightarrow>
          (case Unmarshal r t text of
             Inl msg \<Rightarrow>
               Inl (Other (Sprintf ''error creating %s for model registry %s in namespace %s''
                             [goTypeName t, pName params, pNamespace params]))
           | Inr obj \<Rightarrow> Inr obj))"

definition createOrUpdateResource ::
  "ResourceType \<Rightarrow> ModelRegistryReconciler \<Rightarrow> ModelRegistryParams \<Rightarrow> ModelRegistry
     \<Rightarrow> string \<Rightarrow> Cluster \<Rightarrow> (OperationResult \<times> error option) \<times> Cluster" where
  "createOrUpdateResource t r params registry templateName s =
     (case Apply r params templateName t of
        Inl err \<Rightarrow> ((ResourceUnchanged, Some err), s)
      | Inr obj \<Rightarrow>
          (case SetControllerReference r registry obj of
             Inl err \<Rightarrow> ((ResourceUnchanged, Some err), s)
           | Inr owned \<Rightarrow> createOrUpdate r t owned s))"

text \<open>
  \<^verbatim>\<open>createOrUpdateDeployment\<close>, \<^verbatim>\<open>createOrUpdateService\<close> and
  \<^verbatim>\<open>createOrUpdateServiceAccount\<close> have the same body, each at its own Go type.
\<close>

definition createOrUpdateDeployment ::
  "ModelRegistryReconciler \<Rightarrow> ModelRegistryParams \<Rightarrow> ModelRegistry \<Rightarrow> string
     \<Rightarrow> Cluster \<Rightarrow> (OperationResult \<times> error option) \<times> Cluster" where
  "createOrUpdateDeployment = createOrUpdateResource DeploymentType"

definition createOrUpdateService ::
  "ModelRegistryReconciler \<Rightarrow> ModelRegistryParams \<Rightarrow> ModelRegistry \<Rightarrow> string
     \<Rightarrow> Cluster \<Rightarrow> (OperationResult \<times> error option) \<times> Cluster" where
  "createOrUpdateService = createOrUpdateResource ServiceType"

definition createOrUpdateServiceAccount ::
  "ModelRegistryReconciler \<Rightarrow> ModelRegistryParams \<Rightarrow> ModelRegistry \<Rightarrow> string
     \<Rightarrow> Cluster \<Rightarrow> (OperationResult \<times> error option) \<times> Cluster" where
  "createOrUpdateServiceAccount = createOrUpdateResource ServiceAccountType"

definition updateRegistryResources ::
  "ModelRegistryReconciler \<Rightarrow> ModelRegistryParams \<Rightarrow> ModelRegistry \<Rightarrow> Cluster
     \<Rightarrow> (OperationResult \<times> error option) \<times> Cluster" where
  "updateRegistryResources r params registry s =
     (case createOrUpdateServiceAccount r params registry ''serviceaccount.yaml.tmpl'' s of
        ((result, Some err), s1) \<Rightarrow> ((result, Some err), s1)
      | ((result, None), s1) \<Rightarrow>
          (case createOrUpdateService r params registry ''service.yaml.tmpl'' s1 of
             ((result2, Some err), s2) \<Rightarrow> ((result2, Some err), s2)
           | ((result2, None), s2) \<Rightarrow>
               (let result' = (if result2 \<noteq> ResourceUnchanged then result2 else result)
                in case createOrUpdateDeployment r params registry ''deployment.yaml.tmpl'' s2 of
                     ((result3, Some err), s3) \<Rightarrow> ((result3, Some err), s3)
                   | ((result3, None), s3) \<Rightarrow>
                       ((if result3 \<noteq> ResourceUnchanged then result3 else result', None),
                        s3))))"

subsection \<open>The status of the parent\<close>

text \<open>
  The loop of \<^verbatim>\<open>setRegistryStatus\<close> over \<^verbatim>\<open>deployment.Status.Conditions\<close>: \<open>available\<close> starts
  false, and the first condition of type Available sets it and ends the loop.
\<close>

fun deploymentAvailable :: "DeploymentCondition list \<Rightarrow> bool" where
  "deploymentAvailable [] = False"
| "deploymentAvailable (c # cs) =
     (if dcType c = DeploymentAvailable then dcStatus c = ConditionTrue
      else deploymentAvailable cs)"

definition progressingCondition :: "OperationResult \<Rightarrow> string \<Rightarrow> Condition" where
  "progressingCondition operationResult name =
     (case operationResult of
        ResourceCreated \<Rightarrow>
          \<lparr>Type = ConditionTypeProgressing, Status = ConditionFalse, Reason = ReasonCreating,
           Message = Sprintf ''Creating deployment for custom resource %s'' [name]\<rparr>
      | ResourceUpdated \<Rightarrow>
          \<lparr>Type = ConditionTypeProgressing, Status = ConditionFalse, Reason = ReasonUpdating,
           Message = Sprintf ''Updating deployment for custom resource %s'' [name]\<rparr>
      | ResourceUnchanged \<Rightarrow>
          \<lparr>Type = ConditionTypeProgressing, Status = ConditionTrue, Reason = ReasonCreated,
           Message =
             Sprintf ''Deployment for custom resource %s was successfully created'' [name]\<rparr>)"

definition availableCondition :: "bool \<Rightarrow> string \<Rightarrow> Condition" where
  "availableCondition available name =
     (if available then
        \<lparr>Type = ConditionTypeAvailable, Status = ConditionTrue, Reason = ReasonAvailable,
         Message = Sprintf ''Deployment for custom resource %s is available'' [name]\<rparr>
      else
        \<lparr>Type = ConditionTypeAvailable, Status = ConditionFalse, Reason = ReasonUnavailable,
         Message = Sprintf ''Deployment for custom resource %s is not available'' [name]\<rparr>)"

definition setRegistryStatus ::
  "ModelRegistryReconciler \<Rightarrow> NamespacedName \<Rightarrow> OperationResult \<Rightarrow> Cluster
     \<Rightarrow> error option \<times> Cluster" where
  "setRegistryStatus r req operationResult s =
     (case Get req s of
        (Inl err, s1) \<Rightarrow> (Some err, s1)
      | (Inr modelRegistry, s1) \<Rightarrow>
          (let progressing = modelRegistry\<lparr>Conditions :=
                 SetStatusCondition (Conditions modelRegistry)
                   (progressingCondition operationResult (Name modelRegistry))\<rparr>
           in case ClientGet DeploymentType req s1 of
                (Inl err, s2) \<Rightarrow> (Some err, s2)
              | (Inr deployment, s2) \<Rightarrow>
                  (let available = deploymentAvailable (oStatus deployment);
                       reported = progressing\<lparr>Conditions :=
                         SetStatusCondition (Conditions progressing)
                           (availableCondition available (Name progressing))\<rparr>
                   in case StatusUpdate reported s2 of
                        (Inl err, s3) \<Rightarrow> (Some err, s3)
                      | (Inr stored, s3) \<Rightarrow> (None, s3))))"

subsection \<open>Events\<close>

definition doFinalizerOperationsForModelRegistry :: "ModelRegistry \<Rightarrow> Cluster \<Rightarrow> Cluster" where
  "doFinalizerOperationsForModelRegistry registry s =
     Event ''Warning'' ''Deleting''
       (Sprintf ''Custom Resource %s is being deleted from the namespace %s''
          [Name registry, Namespace registry]) s"

definition logResultAsEvent :: "ModelRegistry \<Rightarrow> OperationResult \<Rightarrow> Cluster \<Rightarrow> Cluster" where
  "logResultAsEvent registry result s =
     (case result of
        ResourceCreated \<Rightarrow>
          Event ''Normal'' ''ServiceCreated''
            (Sprintf ''Created service for custom resource %s in namespace %s''
               [Name registry, Namespace registry]) s
      | ResourceUpdated \<Rightarrow>
          Event ''Normal'' ''ServiceUpdated''
            (Sprintf ''Updated service for custom resource %s in namespace %s''
               [Name registry, Namespace registry]) s
      | ResourceUnchanged \<Rightarrow> s)"

subsection \<open>Reconcile\<close>

type_synonym Outcome = "(Result \<times> error option) \<times> Cluster"

text \<open>
  The deletion branch of \<^verbatim>\<open>Reconcile\<close> (the body of \<^verbatim>\<open>if isMarkedToBeDeleted\<close>), entered with
  the parent as loaded, and with the finalizer added if it was absent.
\<close>

definition degradedUnknown :: "string \<Rightarrow> Condition" where
  "degradedUnknown name =
     \<lparr>Type = ConditionTypeDegraded, Status = ConditionUnknown, Reason = ''Finalizing'',
      Message =
        Sprintf ''Performing finalizer operations for the custom resource: %s '' [name]\<rparr>"

definition degradedTrue :: "string \<Rightarrow> Condition" where
  "degradedTrue name =
     \<lparr>Type = ConditionTypeDegraded, Status = ConditionTrue, Reason = ''Finalizing'',
      Message =
        Sprintf ''Finalizer operations for custom resource %s were successfully accomplished''
          [name]\<rparr>"

definition reconcileDeletion :: "NamespacedName \<Rightarrow> ModelRegistry \<Rightarrow> Cluster \<Rightarrow> Outcome" where
  "reconcileDeletion req modelRegistry s =
     (if ContainsFinalizer modelRegistry modelRegistryFinalizer then
        (let m1 = modelRegistry\<lparr>Conditions :=
               SetStatusCondition (Conditions modelRegistry)
                 (degradedUnknown (Name modelRegistry))\<rparr>
         in case StatusUpdate m1 s of (res1, s1) \<Rightarrow>
           if IgnoreDeletingErrors (errorOf res1) \<noteq> None
           then ((\<lparr>Requeue = False\<rparr>, errorOf res1), s1)
           else
             (let m2 = objectAfter m1 res1;
                  s2 = doFinalizerOperationsForModelRegistry m2 s1
              in case Get req s2 of (res3, s3) \<Rightarrow>
                if IgnoreDeletingErrors (errorOf res3) \<noteq> None
                then ((\<lparr>Requeue = False\<rparr>, errorOf res3), s3)
                else
                  (let m3 = objectAfter m2 res3;
                       m4 = m3\<lparr>Conditions :=
                         SetStatusCondition (Conditions m3) (degradedTrue (Name m3))\<rparr>
                   in case StatusUpdate m4 s3 of (res4, s4) \<Rightarrow>
                     if IgnoreDeletingErrors (errorOf res4) \<noteq> None
                     then ((\<lparr>Requeue = False\<rparr>, errorOf res4), s4)
                     else
                       (case RemoveFinalizer (objectAfter m4 res4) modelRegistryFinalizer of
                          (ok, m5) \<Rightarrow>
                            if \<not> ok then ((\<lparr>Requeue = True\<rparr>, None), s4)
                            else
                              (case Update m5 s4 of (res5, s5) \<Rightarrow>
                                 if IgnoreDeletingErrors (errorOf res5) \<noteq> None
                                 then ((\<lparr>Requeue = False\<rparr>, errorOf res5), s5)
                                 else ((\<lparr>Requeue = False\<rparr>, None), s5))))))
      else ((\<lparr>Requeue = False\<rparr>, None), s))"

text \<open>The normal path of \<^verbatim>\<open>Reconcile\<close>: from the defaults of the spec to the end.\<close>

definition reconcileResources ::
  "ModelRegistryReconciler \<Rightarrow> NamespacedName \<Rightarrow> ModelRegistry \<Rightarrow> Cluster \<Rightarrow> Outcome" where
  "reconcileResources r req modelRegistry s =
     (let defaulted = (if \<not> EnableWebhooks r then Default r modelRegistry else modelRegistry);
          params = \<lparr>pName = snd req, pNamespace = fst req, pSpec = Spec defaulted\<rparr>
      in case updateRegistryResources r params defaulted s of
           ((result, Some err), s1) \<Rightarrow> ((\<lparr>Requeue = False\<rparr>, Some err), s1)
         | ((result, None), s1) \<Rightarrow>
             (case setRegistryStatus r req result (logResultAsEvent defaulted result s1) of
                (Some err, s2) \<Rightarrow> ((\<lparr>Requeue = True\<rparr>, Some err), s2)
              | (None, s2) \<Rightarrow>
                  (if result \<noteq> ResourceUnchanged then ((\<lparr>Requeue = True\<rparr>, None), s2)
                   else ((\<lparr>Requeue = False\<rparr>, None), s2))))"

text \<open>
  The first block of \<^verbatim>\<open>Reconcile\<close> after the load: a parent without the finalizer gets it
  and is updated. \<open>Inl\<close> is an early return, \<open>Inr\<close> the object to go on with.
\<close>

definition ensureFinalizer :: "ModelRegistry \<Rightarrow> Cluster \<Rightarrow> Outcome + ModelRegistry \<times> Cluster" where
  "ensureFinalizer modelRegistry s =
     (if \<not> ContainsFinalizer modelRegistry modelRegistryFinalizer then
        (case AddFinalizer modelRegistry modelRegistryFinalizer of
           (ok, added) \<Rightarrow>
             if \<not> ok then Inl ((\<lparr>Requeue = True\<rparr>, None), s)
             else
               (case Update added s of
                  (Inl err, s1) \<Rightarrow> Inl ((\<lparr>Requeue = False\<rparr>, Some err), s1)
                | (Inr stored, s1) \<Rightarrow> Inr (stored, s1)))
      else Inr (modelRegistry, s))"

definition Reconcile :: "ModelRegistryReconciler \<Rightarrow> NamespacedName \<Rightarrow> Cluster \<Rightarrow> Outcome" where
  "Reconcile r req s =
     (case Get req s of
        (Inl err, s1) \<Rightarrow>
          (if IsNotFound err then ((\<lparr>Requeue = False\<rparr>, None), s1)
           else ((\<lparr>Requeue = False\<rparr>, Some err), s1))
      | (Inr loaded, s1) \<Rightarrow>
          (case ensureFinalizer loaded s1 of
             Inl outcome \<Rightarrow> outcome
           | Inr (modelRegistry, s2) \<Rightarrow>
               (if DeletionTimestamp modelRegistry \<noteq> None
                then reconcileDeletion req modelRegistry s2
                else reconcileResources r req modelRegistry s2)))"

subsection \<open>A small cluster to run the reconciler on\<close>

text \<open>
  The parent \<^verbatim>\<open>demo\<close> in namespace \<^verbatim>\<open>ns1\<close>, a template set that renders one object of the
  parent's name for every template, and clusters that hold the parent with and without
  its Deployment.
\<close>

definition demo :: NamespacedName where
  "demo = (''ns1'', ''demo'')"

definition demoRegistry :: ModelRegistry where
  "demoRegistry =
     \<lparr>Namespace = ''ns1'', Name = ''demo'', Finalizers = [modelRegistryFinalizer],
      DeletionTimestamp = None, Spec = [(''image'', ''img:v1'')], Conditions = []\<rparr>"

definition demoObject :: Object where
  "demoObject =
     \<lparr>oApiVersion = ''v1'', oKind = ''Managed'', oNamespace = ''ns1'', oName = ''demo'',
      oOwner = None, oLastApplied = None, oBody = [(''spec'', ''img:v1'')], oStatus = []\<rparr>"

definition demoReconciler :: ModelRegistryReconciler where
  "demoReconciler =
     \<lparr>ExecuteTemplate = (\<lambda>templateName params. Inr (pName params)),
      Unmarshal = (\<lambda>t text. Inr (demoObject\<lparr>oName := text\<rparr>)),
      EnableWebhooks = False,
      Default = (\<lambda>m. m),
      ownerReferenceError = (\<lambda>owner obj. None),
      annotationError = (\<lambda>obj. None),
      calculateError = (\<lambda>currObj newObj. None)\<rparr>"

definition emptyCluster :: Cluster where
  "emptyCluster =
     \<lparr>registries = (\<lambda>key. None), objects = (\<lambda>key. None), faults = [], calls = []\<rparr>"

definition demoCluster :: Cluster where
  "demoCluster = emptyCluster\<lparr>registries := (registries emptyCluster)(demo := Some demoRegistry)\<rparr>"

definition deployedCluster :: "DeploymentCondition list \<Rightarrow> Cluster" where
  "deployedCluster conds =
     demoCluster\<lparr>objects := (objects demoCluster)((DeploymentType, demo) :=
                      Some (demoObject\<lparr>oStatus := conds\<rparr>))\<rparr>"

definition deletingRegistry :: ModelRegistry where
  "deletingRegistry = demoRegistry\<lparr>DeletionTimestamp := Some 1\<rparr>"

definition deletingCluster :: Cluster where
  "deletingCluster =
     emptyCluster\<lparr>registries := (registries emptyCluster)(demo := Some deletingRegistry)\<rparr>"

definition unmarkedRegistry :: ModelRegistry where
  "unmarkedRegistry = demoRegistry\<lparr>Finalizers := [], DeletionTimestamp := Some 1\<rparr>"

definition unmarkedCluster :: Cluster where
  "unmarkedCluster =
     emptyCluster\<lparr>registries := (registries emptyCluster)(demo := Some unmarkedRegistry)\<rparr>"

subsection \<open>A notion for the proofs\<close>

text \<open>From \<open>s\<close> to \<open>s'\<close> calls were issued, none of them an update of a parent.\<close>

definition quiet :: "Cluster \<Rightarrow> Cluster \<Rightarrow> bool" where
  "quiet s s' \<longleftrightarrow> (\<exists>rest. calls s' = calls s @ rest \<and> (\<forall>m. UpdateRegistry m \<notin> set rest))"

section \<open>Facts about the client\<close>

text \<open>
  What every client call leaves behind: it is appended to the calls, it uses up one forced
  outcome, and a read changes nothing in the store.
\<close>

lemma serve_result:
  "serve c s = (f, s') \<Longrightarrow>
     registries s' = registries s \<and> objects s' = objects s \<and>
     calls s' = calls s @ [c] \<and> faults s' = tl (faults s) \<and>
     (f = None \<or> f \<in> set (faults s))"
  by (auto simp: serve_def issue_def split: list.splits)

lemma Get_Inl:
  "Get key s = (Inl e, s') \<Longrightarrow>
     registries s' = registries s \<and> objects s' = objects s \<and>
     calls s' = calls s @ [GetRegistry key] \<and> faults s' = tl (faults s) \<and>
     (Some e \<in> set (faults s) \<or> e = NotFound)"
  by (auto simp: Get_def split: option.splits prod.splits dest: serve_result)

lemma Get_Inr:
  "Get key s = (Inr m, s') \<Longrightarrow>
     registries s' = registries s \<and> objects s' = objects s \<and>
     calls s' = calls s @ [GetRegistry key] \<and> faults s' = tl (faults s) \<and>
     registries s key = Some m"
  by (auto simp: Get_def split: option.splits prod.splits dest: serve_result)

lemma ClientGet_Inl:
  "ClientGet t key s = (Inl e, s') \<Longrightarrow>
     registries s' = registries s \<and> objects s' = objects s \<and>
     calls s' = calls s @ [GetObject t key] \<and> faults s' = tl (faults s)"
  by (auto simp: ClientGet_def split: option.splits prod.splits dest: serve_result)

lemma ClientGet_Inr:
  "ClientGet t key s = (Inr obj, s') \<Longrightarrow>
     registries s' = registries s \<and> objects s' = objects s \<and>
     calls s' = calls s @ [GetObject t key] \<and> faults s' = tl (faults s) \<and>
     objects s (t, key) = Some obj"
  by (auto simp: ClientGet_def split: option.splits prod.splits dest: serve_result)

lemma StatusUpdate_calls:
  "StatusUpdate m s = (res, s') \<Longrightarrow>
     calls s' = calls s @ [UpdateRegistryStatus m] \<and> objects s' = objects s \<and>
     faults s' = tl (faults s)"
  by (auto simp: StatusUpdate_def Let_def split: option.splits prod.splits dest: serve_result)

lemma ClientCreate_fault:
  "faults s = Some e # fs \<Longrightarrow>
     fst (ClientCreate t obj s) = Some e \<and> objects (snd (ClientCreate t obj s)) = objects s
     \<and> registries (snd (ClientCreate t obj s)) = registries s"
  by (simp add: ClientCreate_def serve_def issue_def)

lemma ClientUpdate_fault:
  "faults s = Some e # fs \<Longrightarrow>
     fst (ClientUpdate t obj s) = Some e \<and> objects (snd (ClientUpdate t obj s)) = objects s
     \<and> registries (snd (ClientUpdate t obj s)) = registries s"
  by (simp add: ClientUpdate_def serve_def issue_def)

lemma FindStatusCondition_Set:
  "FindStatusCondition (SetStatusCondition cs c) (Type c) = Some c"
  by (induction cs) auto

lemma deploymentAvailable_first:
  "\<forall>x\<in>set pre. dcType x \<noteq> DeploymentAvailable \<Longrightarrow> dcType c = DeploymentAvailable \<Longrightarrow>
     deploymentAvailable (pre @ c # post) = (dcStatus c = ConditionTrue)"
  by (induction pre) auto

lemma deploymentAvailable_none:
  "\<forall>x\<in>set cs. dcType x \<noteq> DeploymentAvailable \<Longrightarrow> \<not> deploymentAvailable cs"
  by (induction cs) auto

section \<open>Loading the parent\<close>

text \<open>
  Claim C8. When the load of the parent at the start of \<^verbatim>\<open>Reconcile\<close> fails, nothing more
  is done: the only call issued is the read and the store is as it was. A NotFound gives
  no error and no requeue; any other error of the read is returned.
\<close>

theorem Reconcile_load_error:
  "Get req s = (Inl err, s1) \<Longrightarrow>
     Reconcile r req s = ((\<lparr>Requeue = False\<rparr>, if IsNotFound err then None else Some err), s1)
     \<and> calls s1 = calls s @ [GetRegistry req]
     \<and> registries s1 = registries s \<and> objects s1 = objects s"
  by (auto simp: Reconcile_def dest: Get_Inl)

text \<open>The empty cluster answers NotFound; a forced time-out of the read is returned.\<close>

theorem Reconcile_load_error_witness:
  "Get demo emptyCluster = (Inl NotFound, emptyCluster\<lparr>calls := [GetRegistry demo]\<rparr>)
   \<and> Reconcile demoReconciler demo emptyCluster =
       ((\<lparr>Requeue = False\<rparr>, None), emptyCluster\<lparr>calls := [GetRegistry demo]\<rparr>)
   \<and> Reconcile demoReconciler demo (emptyCluster\<lparr>faults := [Some (Other ''timeout'')]\<rparr>) =
       ((\<lparr>Requeue = False\<rparr>, Some (Other ''timeout'')),
        emptyCluster\<lparr>calls := [GetRegistry demo]\<rparr>)"
proof -
  have a: "Get demo emptyCluster = (Inl NotFound, emptyCluster\<lparr>calls := [GetRegistry demo]\<rparr>)"
    by (simp add: Get_def serve_def issue_def emptyCluster_def)
  have b: "Get demo (emptyCluster\<lparr>faults := [Some (Other ''timeout'')]\<rparr>) =
      (Inl (Other ''timeout''), emptyCluster\<lparr>calls := [GetRegistry demo]\<rparr>)"
    by (simp add: Get_def serve_def issue_def emptyCluster_def)
  show ?thesis
    using a Reconcile_load_error [OF a, of demoReconciler]
      Reconcile_load_error [OF b, of demoReconciler]
    by (simp add: IsNotFound_def)
qed

section \<open>The status of the parent\<close>

text \<open>
  Claim C1, as the code has it. When the parent is read and the read of the Deployment
  fails, \<^verbatim>\<open>setRegistryStatus\<close> returns the error of that read; the only calls issued are
  the two reads, so no status is written and the stored parents are as they were.
\<close>

theorem setRegistryStatus_deployment_unreadable:
  "Get req s = (Inr m, s1) \<Longrightarrow> ClientGet DeploymentType req s1 = (Inl err, s2) \<Longrightarrow>
     setRegistryStatus r req res s = (Some err, s2)
     \<and> registries s2 = registries s
     \<and> calls s2 = calls s @ [GetRegistry req, GetObject DeploymentType req]"
proof -
  assume a: "Get req s = (Inr m, s1)" and b: "ClientGet DeploymentType req s1 = (Inl err, s2)"
  show ?thesis
    using a b Get_Inr [OF a] ClientGet_Inl [OF b]
    by (simp add: setRegistryStatus_def Let_def)
qed

text \<open>A forced time-out of the read of the Deployment.\<close>

theorem setRegistryStatus_deployment_unreadable_witness:
  "Get demo (demoCluster\<lparr>faults := [None, Some (Other ''timeout'')]\<rparr>) =
     (Inr demoRegistry,
      demoCluster\<lparr>faults := [Some (Other ''timeout'')], calls := [GetRegistry demo]\<rparr>)
   \<and> ClientGet DeploymentType demo
        (demoCluster\<lparr>faults := [Some (Other ''timeout'')], calls := [GetRegistry demo]\<rparr>) =
     (Inl (Other ''timeout''),
      demoCluster\<lparr>faults := [], calls := [GetRegistry demo, GetObject DeploymentType demo]\<rparr>)
   \<and> setRegistryStatus demoReconciler demo ResourceUnchanged
        (demoCluster\<lparr>faults := [None, Some (Other ''timeout'')]\<rparr>) =
     (Some (Other ''timeout''),
      demoCluster\<lparr>faults := [], calls := [GetRegistry demo, GetObject DeploymentType demo]\<rparr>)"
proof -
  have a: "Get demo (demoCluster\<lparr>faults := [None, Some (Other ''timeout'')]\<rparr>) =
     (Inr demoRegistry,
      demoCluster\<lparr>faults := [Some (Other ''timeout'')], calls := [GetRegistry demo]\<rparr>)"
    by (simp add: Get_def serve_def issue_def demoCluster_def emptyCluster_def)
  have b: "ClientGet DeploymentType demo
        (demoCluster\<lparr>faults := [Some (Other ''timeout'')], calls := [GetRegistry demo]\<rparr>) =
     (Inl (Other ''timeout''),
      demoCluster\<lparr>faults := [], calls := [GetRegistry demo, GetObject DeploymentType demo]\<rparr>)"
    by (simp add: ClientGet_def serve_def issue_def demoCluster_def emptyCluster_def)
  show ?thesis
    using a b setRegistryStatus_deployment_unreadable [OF a b, of demoReconciler ResourceUnchanged]
    by simp
qed

text \<open>
  Claim C1 as stated does not hold: on the cluster that holds the parent and no Deployment
  yet, \<^verbatim>\<open>setRegistryStatus\<close> returns the NotFound of the read, and issues no status update.
  And a first reconcile of the demo parent in which the read of the Deployment for the
  status is answered NotFound returns that error, with the stored parent left without
  conditions.
\<close>

theorem setRegistryStatus_fail_soft_counterexample:
  "setRegistryStatus demoReconciler demo ResourceCreated demoCluster =
     (Some NotFound,
      demoCluster\<lparr>calls := [GetRegistry demo, GetObject DeploymentType demo]\<rparr>)
   \<and> fst (Reconcile demoReconciler demo
          (demoCluster\<lparr>faults := [None, None, None, None, None, None, None, None,
                                   Some NotFound]\<rparr>)) =
       (\<lparr>Requeue = True\<rparr>, Some NotFound)
   \<and> registries (snd (Reconcile demoReconciler demo
          (demoCluster\<lparr>faults := [None, None, None, None, None, None, None, None,
                                   Some NotFound]\<rparr>))) demo =
       Some demoRegistry"
  by (simp add: Reconcile_def ensureFinalizer_def reconcileResources_def
      updateRegistryResources_def setRegistryStatus_def logResultAsEvent_def Event_def
      createOrUpdateServiceAccount_def createOrUpdateService_def
      createOrUpdateDeployment_def createOrUpdateResource_def Apply_def
      SetControllerReference_def createOrUpdate_def Get_def ClientGet_def ClientCreate_def
      serve_def issue_def SetLastAppliedAnnotation_def IgnoreNotFound_def IsNotFound_def
      ObjectKeyFromObject_def ContainsFinalizer_def demoReconciler_def demoObject_def
      demoRegistry_def demoCluster_def emptyCluster_def demo_def Let_def)

text \<open>
  Claim C10. With both reads served, the status update that \<^verbatim>\<open>setRegistryStatus\<close> issues
  carries the Available condition computed from the Deployment: True with reason
  DeploymentAvailable when the Deployment counts as available, False with reason
  DeploymentUnavailable when it does not. Only the first condition of type Available of
  the Deployment decides it, whatever follows: the parent's condition is True when the
  status of that first condition is True and False otherwise. With no condition of that
  type it is False with reason DeploymentUnavailable.
\<close>

theorem available_from_first_condition:
  assumes "Get req s = (Inr m, s1)" and "ClientGet DeploymentType req s1 = (Inr d, s2)"
  shows "(\<exists>reported. calls (snd (setRegistryStatus r req res s)) =
              calls s2 @ [UpdateRegistryStatus reported]
            \<and> FindStatusCondition (Conditions reported) ConditionTypeAvailable =
                Some (availableCondition (deploymentAvailable (oStatus d)) (Name m))
            \<and> FindStatusCondition (Conditions reported) ConditionTypeAvailable =
                Some (if deploymentAvailable (oStatus d) then
              \<lparr>Type = ConditionTypeAvailable, Status = ConditionTrue,
               Reason = ReasonAvailable,
               Message = Sprintf ''Deployment for custom resource %s is available''
                           [Name m]\<rparr>
                      else
              \<lparr>Type = ConditionTypeAvailable, Status = ConditionFalse,
               Reason = ReasonUnavailable,
               Message = Sprintf ''Deployment for custom resource %s is not available''
                           [Name m]\<rparr>))
     \<and> (\<forall>pre c post. oStatus d = pre @ c # post
            \<and> (\<forall>x\<in>set pre. dcType x \<noteq> DeploymentAvailable)
            \<and> dcType c = DeploymentAvailable
          \<longrightarrow> deploymentAvailable (oStatus d) = (dcStatus c = ConditionTrue))
     \<and> (\<forall>pre c post. oStatus d = pre @ c # post
            \<and> (\<forall>x\<in>set pre. dcType x \<noteq> DeploymentAvailable)
            \<and> dcType c = DeploymentAvailable \<and> dcStatus c = ConditionTrue
          \<longrightarrow> availableCondition (deploymentAvailable (oStatus d)) (Name m) =
              \<lparr>Type = ConditionTypeAvailable, Status = ConditionTrue,
               Reason = ReasonAvailable,
               Message = Sprintf ''Deployment for custom resource %s is available''
                           [Name m]\<rparr>)
     \<and> (\<forall>pre c post. oStatus d = pre @ c # post
            \<and> (\<forall>x\<in>set pre. dcType x \<noteq> DeploymentAvailable)
            \<and> dcType c = DeploymentAvailable \<and> dcStatus c \<noteq> ConditionTrue
          \<longrightarrow> availableCondition (deploymentAvailable (oStatus d)) (Name m) =
              \<lparr>Type = ConditionTypeAvailable, Status = ConditionFalse,
               Reason = ReasonUnavailable,
               Message = Sprintf ''Deployment for custom resource %s is not available''
                           [Name m]\<rparr>)
     \<and> ((\<forall>x\<in>set (oStatus d). dcType x \<noteq> DeploymentAvailable)
          \<longrightarrow> availableCondition (deploymentAvailable (oStatus d)) (Name m) =
              \<lparr>Type = ConditionTypeAvailable, Status = ConditionFalse,
               Reason = ReasonUnavailable,
               Message = Sprintf ''Deployment for custom resource %s is not available''
                           [Name m]\<rparr>)"
proof (intro conjI)
  let ?reported = "m\<lparr>Conditions :=
      SetStatusCondition
        (SetStatusCondition (Conditions m) (progressingCondition res (Name m)))
        (availableCondition (deploymentAvailable (oStatus d)) (Name m))\<rparr>"
  obtain res3 s3 where upd: "StatusUpdate ?reported s2 = (res3, s3)"
    by (cases "StatusUpdate ?reported s2")
  have "calls (snd (setRegistryStatus r req res s)) = calls s3"
    using assms upd by (cases res3) (simp_all add: setRegistryStatus_def Let_def)
  moreover have "calls s3 = calls s2 @ [UpdateRegistryStatus ?reported]"
    using StatusUpdate_calls [OF upd] by simp
  ultimately have issued: "calls (snd (setRegistryStatus r req res s)) =
      calls s2 @ [UpdateRegistryStatus ?reported]"
    by simp
  have "Type (availableCondition b n) = ConditionTypeAvailable" for b n
    by (simp add: availableCondition_def)
  then have found: "FindStatusCondition (Conditions ?reported) ConditionTypeAvailable =
      Some (availableCondition (deploymentAvailable (oStatus d)) (Name m))"
    using FindStatusCondition_Set
      [of _ "availableCondition (deploymentAvailable (oStatus d)) (Name m)"]
    by simp
  have "availableCondition (deploymentAvailable (oStatus d)) (Name m) =
      (if deploymentAvailable (oStatus d) then
              \<lparr>Type = ConditionTypeAvailable, Status = ConditionTrue,
               Reason = ReasonAvailable,
               Message = Sprintf ''Deployment for custom resource %s is available''
                           [Name m]\<rparr>
                      else
              \<lparr>Type = ConditionTypeAvailable, Status = ConditionFalse,
               Reason = ReasonUnavailable,
               Message = Sprintf ''Deployment for custom resource %s is not available''
                           [Name m]\<rparr>)"
    by (simp add: availableCondition_def)
  with found have valued: "FindStatusCondition (Conditions ?reported) ConditionTypeAvailable =
      Some (if deploymentAvailable (oStatus d) then
              \<lparr>Type = ConditionTypeAvailable, Status = ConditionTrue,
               Reason = ReasonAvailable,
               Message = Sprintf ''Deployment for custom resource %s is available''
                           [Name m]\<rparr>
                      else
              \<lparr>Type = ConditionTypeAvailable, Status = ConditionFalse,
               Reason = ReasonUnavailable,
               Message = Sprintf ''Deployment for custom resource %s is not available''
                           [Name m]\<rparr>)"
    by (simp only:)
  show "\<exists>reported. calls (snd (setRegistryStatus r req res s)) =
              calls s2 @ [UpdateRegistryStatus reported]
            \<and> FindStatusCondition (Conditions reported) ConditionTypeAvailable =
                Some (availableCondition (deploymentAvailable (oStatus d)) (Name m))
            \<and> FindStatusCondition (Conditions reported) ConditionTypeAvailable =
                Some (if deploymentAvailable (oStatus d) then
              \<lparr>Type = ConditionTypeAvailable, Status = ConditionTrue,
               Reason = ReasonAvailable,
               Message = Sprintf ''Deployment for custom resource %s is available''
                           [Name m]\<rparr>
                      else
              \<lparr>Type = ConditionTypeAvailable, Status = ConditionFalse,
               Reason = ReasonUnavailable,
               Message = Sprintf ''Deployment for custom resource %s is not available''
                           [Name m]\<rparr>)"
    by (intro exI [of _ ?reported] conjI) (rule issued, rule found, rule valued)
next
  show "\<forall>pre c post. oStatus d = pre @ c # post
            \<and> (\<forall>x\<in>set pre. dcType x \<noteq> DeploymentAvailable)
            \<and> dcType c = DeploymentAvailable
          \<longrightarrow> deploymentAvailable (oStatus d) = (dcStatus c = ConditionTrue)"
    using deploymentAvailable_first by auto
next
  show "\<forall>pre c post. oStatus d = pre @ c # post
            \<and> (\<forall>x\<in>set pre. dcType x \<noteq> DeploymentAvailable)
            \<and> dcType c = DeploymentAvailable \<and> dcStatus c = ConditionTrue
          \<longrightarrow> availableCondition (deploymentAvailable (oStatus d)) (Name m) =
              \<lparr>Type = ConditionTypeAvailable, Status = ConditionTrue,
               Reason = ReasonAvailable,
               Message = Sprintf ''Deployment for custom resource %s is available''
                           [Name m]\<rparr>"
  proof (intro allI impI)
    fix pre c post
    assume h: "oStatus d = pre @ c # post
            \<and> (\<forall>x\<in>set pre. dcType x \<noteq> DeploymentAvailable)
            \<and> dcType c = DeploymentAvailable \<and> dcStatus c = ConditionTrue"
    then have "deploymentAvailable (oStatus d)"
      using deploymentAvailable_first [of pre c post] by simp
    then show "availableCondition (deploymentAvailable (oStatus d)) (Name m) =
              \<lparr>Type = ConditionTypeAvailable, Status = ConditionTrue,
               Reason = ReasonAvailable,
               Message = Sprintf ''Deployment for custom resource %s is available''
                           [Name m]\<rparr>"
      by (simp add: availableCondition_def)
  qed
next
  show "\<forall>pre c post. oStatus d = pre @ c # post
            \<and> (\<forall>x\<in>set pre. dcType x \<noteq> DeploymentAvailable)
            \<and> dcType c = DeploymentAvailable \<and> dcStatus c \<noteq> ConditionTrue
          \<longrightarrow> availableCondition (deploymentAvailable (oStatus d)) (Name m) =
              \<lparr>Type = ConditionTypeAvailable, Status = ConditionFalse,
               Reason = ReasonUnavailable,
               Message = Sprintf ''Deployment for custom resource %s is not available''
                           [Name m]\<rparr>"
  proof (intro allI impI)
    fix pre c post
    assume h: "oStatus d = pre @ c # post
            \<and> (\<forall>x\<in>set pre. dcType x \<noteq> DeploymentAvailable)
            \<and> dcType c = DeploymentAvailable \<and> dcStatus c \<noteq> ConditionTrue"
    then have "\<not> deploymentAvailable (oStatus d)"
      using deploymentAvailable_first [of pre c post] by simp
    then show "availableCondition (deploymentAvailable (oStatus d)) (Name m) =
              \<lparr>Type = ConditionTypeAvailable, Status = ConditionFalse,
               Reason = ReasonUnavailable,
               Message = Sprintf ''Deployment for custom resource %s is not available''
                           [Name m]\<rparr>"
      by (simp add: availableCondition_def)
  qed
next
  show "(\<forall>x\<in>set (oStatus d). dcType x \<noteq> DeploymentAvailable)
          \<longrightarrow> availableCondition (deploymentAvailable (oStatus d)) (Name m) =
              \<lparr>Type = ConditionTypeAvailable, Status = ConditionFalse,
               Reason = ReasonUnavailable,
               Message = Sprintf ''Deployment for custom resource %s is not available''
                           [Name m]\<rparr>"
    using deploymentAvailable_none [of "oStatus d"] by (simp add: availableCondition_def)
qed

text \<open>
  A Deployment whose first Available condition is True and whose second is False is
  reported available; one whose first Available condition is False and whose second is
  True is reported unavailable; so is a Deployment with no Available condition.
\<close>

theorem available_from_first_condition_witness:
  "Get demo (deployedCluster
       [\<lparr>dcType = ''Progressing'', dcStatus = ConditionTrue\<rparr>,
        \<lparr>dcType = ''Available'', dcStatus = ConditionTrue\<rparr>,
        \<lparr>dcType = ''Available'', dcStatus = ConditionFalse\<rparr>]) =
     (Inr demoRegistry,
      (deployedCluster
       [\<lparr>dcType = ''Progressing'', dcStatus = ConditionTrue\<rparr>,
        \<lparr>dcType = ''Available'', dcStatus = ConditionTrue\<rparr>,
        \<lparr>dcType = ''Available'', dcStatus = ConditionFalse\<rparr>])\<lparr>calls := [GetRegistry demo]\<rparr>)
   \<and> deploymentAvailable
       [\<lparr>dcType = ''Progressing'', dcStatus = ConditionTrue\<rparr>,
        \<lparr>dcType = ''Available'', dcStatus = ConditionTrue\<rparr>,
        \<lparr>dcType = ''Available'', dcStatus = ConditionFalse\<rparr>]
   \<and> (\<exists>reported.
         calls (snd (setRegistryStatus demoReconciler demo ResourceUnchanged
                   (deployedCluster
                      [\<lparr>dcType = ''Progressing'', dcStatus = ConditionTrue\<rparr>,
                       \<lparr>dcType = ''Available'', dcStatus = ConditionTrue\<rparr>,
                       \<lparr>dcType = ''Available'', dcStatus = ConditionFalse\<rparr>]))) =
           [GetRegistry demo, GetObject DeploymentType demo, UpdateRegistryStatus reported]
         \<and> FindStatusCondition (Conditions reported) ConditionTypeAvailable =
             Some \<lparr>Type = ConditionTypeAvailable, Status = ConditionTrue,
                   Reason = ReasonAvailable,
                   Message = ''Deployment for custom resource demo is available''\<rparr>)
   \<and> \<not> deploymentAvailable
       [\<lparr>dcType = ''Progressing'', dcStatus = ConditionTrue\<rparr>,
        \<lparr>dcType = ''Available'', dcStatus = ConditionFalse\<rparr>,
        \<lparr>dcType = ''Available'', dcStatus = ConditionTrue\<rparr>]
   \<and> (\<exists>reported.
         calls (snd (setRegistryStatus demoReconciler demo ResourceUnchanged
                   (deployedCluster
                      [\<lparr>dcType = ''Progressing'', dcStatus = ConditionTrue\<rparr>,
                       \<lparr>dcType = ''Available'', dcStatus = ConditionFalse\<rparr>,
                       \<lparr>dcType = ''Available'', dcStatus = ConditionTrue\<rparr>]))) =
           [GetRegistry demo, GetObject DeploymentType demo, UpdateRegistryStatus reported]
         \<and> FindStatusCondition (Conditions reported) ConditionTypeAvailable =
             Some \<lparr>Type = ConditionTypeAvailable, Status = ConditionFalse,
                   Reason = ReasonUnavailable,
                   Message = ''Deployment for custom resource demo is not available''\<rparr>)
   \<and> (\<exists>reported.
         calls (snd (setRegistryStatus demoReconciler demo ResourceUnchanged
                   (deployedCluster [\<lparr>dcType = ''Progressing'', dcStatus = ConditionTrue\<rparr>]))) =
           [GetRegistry demo, GetObject DeploymentType demo, UpdateRegistryStatus reported]
         \<and> FindStatusCondition (Conditions reported) ConditionTypeAvailable =
             Some \<lparr>Type = ConditionTypeAvailable, Status = ConditionFalse,
                   Reason = ReasonUnavailable,
                   Message = ''Deployment for custom resource demo is not available''\<rparr>)"
proof -
  let ?ts = "[\<lparr>dcType = ''Progressing'', dcStatus = ConditionTrue\<rparr>,
        \<lparr>dcType = ''Available'', dcStatus = ConditionTrue\<rparr>,
        \<lparr>dcType = ''Available'', dcStatus = ConditionFalse\<rparr>]"
  let ?cs = "[\<lparr>dcType = ''Progressing'', dcStatus = ConditionTrue\<rparr>,
        \<lparr>dcType = ''Available'', dcStatus = ConditionFalse\<rparr>,
        \<lparr>dcType = ''Available'', dcStatus = ConditionTrue\<rparr>]"
  let ?ds = "[\<lparr>dcType = ''Progressing'', dcStatus = ConditionTrue\<rparr>]"
  have a: "Get demo (deployedCluster cs) =
      (Inr demoRegistry, (deployedCluster cs)\<lparr>calls := [GetRegistry demo]\<rparr>)" for cs
    by (simp add: Get_def serve_def issue_def deployedCluster_def demoCluster_def
        emptyCluster_def)
  have b: "ClientGet DeploymentType demo ((deployedCluster cs)\<lparr>calls := [GetRegistry demo]\<rparr>) =
      (Inr (demoObject\<lparr>oStatus := cs\<rparr>),
       (deployedCluster cs)\<lparr>calls := [GetRegistry demo, GetObject DeploymentType demo]\<rparr>)" for cs
    by (simp add: ClientGet_def serve_def issue_def deployedCluster_def demoCluster_def
        emptyCluster_def)
  note at_ts = available_from_first_condition [OF a [of ?ts] b [of ?ts],
        where r = demoReconciler and res = ResourceUnchanged]
  note at_cs = available_from_first_condition [OF a [of ?cs] b [of ?cs],
        where r = demoReconciler and res = ResourceUnchanged]
  note at_ds = available_from_first_condition [OF a [of ?ds] b [of ?ds],
        where r = demoReconciler and res = ResourceUnchanged]
  have first_true: "deploymentAvailable ?ts"
  proof -
    from at_ts have "\<forall>pre c post. ?ts = pre @ c # post
            \<and> (\<forall>x\<in>set pre. dcType x \<noteq> DeploymentAvailable)
            \<and> dcType c = DeploymentAvailable
          \<longrightarrow> deploymentAvailable ?ts = (dcStatus c = ConditionTrue)"
      by simp
    from this [rule_format, of "[\<lparr>dcType = ''Progressing'', dcStatus = ConditionTrue\<rparr>]"
        "\<lparr>dcType = ''Available'', dcStatus = ConditionTrue\<rparr>"
        "[\<lparr>dcType = ''Available'', dcStatus = ConditionFalse\<rparr>]"]
    show ?thesis by (simp add: DeploymentAvailable_def)
  qed
  have first_false: "\<not> deploymentAvailable ?cs"
  proof -
    from at_cs have "\<forall>pre c post. ?cs = pre @ c # post
            \<and> (\<forall>x\<in>set pre. dcType x \<noteq> DeploymentAvailable)
            \<and> dcType c = DeploymentAvailable
          \<longrightarrow> deploymentAvailable ?cs = (dcStatus c = ConditionTrue)"
      by simp
    from this [rule_format, of "[\<lparr>dcType = ''Progressing'', dcStatus = ConditionTrue\<rparr>]"
        "\<lparr>dcType = ''Available'', dcStatus = ConditionFalse\<rparr>"
        "[\<lparr>dcType = ''Available'', dcStatus = ConditionTrue\<rparr>]"]
    show ?thesis by (simp add: DeploymentAvailable_def)
  qed
  have reported_true: "\<exists>reported.
         calls (snd (setRegistryStatus demoReconciler demo ResourceUnchanged
                   (deployedCluster ?ts))) =
           [GetRegistry demo, GetObject DeploymentType demo, UpdateRegistryStatus reported]
         \<and> FindStatusCondition (Conditions reported) ConditionTypeAvailable =
             Some \<lparr>Type = ConditionTypeAvailable, Status = ConditionTrue,
                   Reason = ReasonAvailable,
                   Message = ''Deployment for custom resource demo is available''\<rparr>"
    using at_ts first_true
    by (auto simp add: DeploymentAvailable_def demoRegistry_def)
  have reported_false: "\<exists>reported.
         calls (snd (setRegistryStatus demoReconciler demo ResourceUnchanged
                   (deployedCluster ?cs))) =
           [GetRegistry demo, GetObject DeploymentType demo, UpdateRegistryStatus reported]
         \<and> FindStatusCondition (Conditions reported) ConditionTypeAvailable =
             Some \<lparr>Type = ConditionTypeAvailable, Status = ConditionFalse,
                   Reason = ReasonUnavailable,
                   Message = ''Deployment for custom resource demo is not available''\<rparr>"
    using at_cs first_false
    by (auto simp add: DeploymentAvailable_def demoRegistry_def)
  have none: "\<exists>reported.
         calls (snd (setRegistryStatus demoReconciler demo ResourceUnchanged
                   (deployedCluster ?ds))) =
           [GetRegistry demo, GetObject DeploymentType demo, UpdateRegistryStatus reported]
         \<and> FindStatusCondition (Conditions reported) ConditionTypeAvailable =
             Some \<lparr>Type = ConditionTypeAvailable, Status = ConditionFalse,
                   Reason = ReasonUnavailable,
                   Message = ''Deployment for custom resource demo is not available''\<rparr>"
    using at_ds
    by (auto simp add: DeploymentAvailable_def demoRegistry_def)
  show ?thesis
    using a [of ?ts] first_true reported_true first_false reported_false none by simp
qed

section \<open>The apply operation\<close>

text \<open>
  Claim C9. \<^verbatim>\<open>createOrUpdate\<close> returns Created or Updated together with an error when the
  annotation fails (then no write is issued: the only call is the read) and when the
  create or the update itself fails (then the managed resources are as they were).
\<close>

theorem createOrUpdate_result_with_error:
  "(ClientGet t (ObjectKeyFromObject newObj) s = (Inl NotFound, s1)
      \<and> annotationError r newObj = Some e
    \<longrightarrow> createOrUpdate r t newObj s = ((ResourceCreated, Some e), s1)
        \<and> calls s1 = calls s @ [GetObject t (ObjectKeyFromObject newObj)])
   \<and> (ClientGet t (ObjectKeyFromObject newObj) s = (Inl NotFound, s1)
      \<and> annotationError r newObj = None \<and> faults s1 = Some e # fs
    \<longrightarrow> fst (createOrUpdate r t newObj s) = (ResourceCreated, Some e)
        \<and> objects (snd (createOrUpdate r t newObj s)) = objects s)
   \<and> (ClientGet t (ObjectKeyFromObject newObj) s = (Inr currObj, s1)
      \<and> Calculate r currObj newObj
          [IgnoreStatusFields, IgnoreField ''apiVersion'', IgnoreField ''kind''] = Inr p
      \<and> \<not> IsEmpty p \<and> annotationError r newObj = Some e
    \<longrightarrow> createOrUpdate r t newObj s = ((ResourceUpdated, Some e), s1)
        \<and> calls s1 = calls s @ [GetObject t (ObjectKeyFromObject newObj)])
   \<and> (ClientGet t (ObjectKeyFromObject newObj) s = (Inr currObj, s1)
      \<and> Calculate r currObj newObj
          [IgnoreStatusFields, IgnoreField ''apiVersion'', IgnoreField ''kind''] = Inr p
      \<and> \<not> IsEmpty p \<and> annotationError r newObj = None \<and> faults s1 = Some e # fs
    \<longrightarrow> fst (createOrUpdate r t newObj s) = (ResourceUpdated, Some e)
        \<and> objects (snd (createOrUpdate r t newObj s)) = objects s)"
proof (intro conjI impI)
  assume h: "ClientGet t (ObjectKeyFromObject newObj) s = (Inl NotFound, s1)
      \<and> annotationError r newObj = Some e"
  then show "createOrUpdate r t newObj s = ((ResourceCreated, Some e), s1)"
    by (simp add: createOrUpdate_def IgnoreNotFound_def IsNotFound_def
        SetLastAppliedAnnotation_def)
  from h show "calls s1 = calls s @ [GetObject t (ObjectKeyFromObject newObj)]"
    using ClientGet_Inl by blast
next
  assume h: "ClientGet t (ObjectKeyFromObject newObj) s = (Inl NotFound, s1)
      \<and> annotationError r newObj = None \<and> faults s1 = Some e # fs"
  let ?a = "newObj\<lparr>oLastApplied := Some (document newObj)\<rparr>"
  have c: "createOrUpdate r t newObj s =
      ((ResourceCreated, fst (ClientCreate t ?a s1)), snd (ClientCreate t ?a s1))"
    using h by (simp add: createOrUpdate_def IgnoreNotFound_def IsNotFound_def
        SetLastAppliedAnnotation_def split: prod.splits)
  from h have f: "faults s1 = Some e # fs" by simp
  from h have o: "objects s1 = objects s" using ClientGet_Inl by blast
  show "fst (createOrUpdate r t newObj s) = (ResourceCreated, Some e)"
    using c ClientCreate_fault [OF f, of t ?a] by simp
  show "objects (snd (createOrUpdate r t newObj s)) = objects s"
    using c o ClientCreate_fault [OF f, of t ?a] by simp
next
  assume h: "ClientGet t (ObjectKeyFromObject newObj) s = (Inr currObj, s1)
      \<and> Calculate r currObj newObj
          [IgnoreStatusFields, IgnoreField ''apiVersion'', IgnoreField ''kind''] = Inr p
      \<and> \<not> IsEmpty p \<and> annotationError r newObj = Some e"
  then show "createOrUpdate r t newObj s = ((ResourceUpdated, Some e), s1)"
    by (simp add: createOrUpdate_def SetLastAppliedAnnotation_def)
  from h show "calls s1 = calls s @ [GetObject t (ObjectKeyFromObject newObj)]"
    using ClientGet_Inr by blast
next
  assume h: "ClientGet t (ObjectKeyFromObject newObj) s = (Inr currObj, s1)
      \<and> Calculate r currObj newObj
          [IgnoreStatusFields, IgnoreField ''apiVersion'', IgnoreField ''kind''] = Inr p
      \<and> \<not> IsEmpty p \<and> annotationError r newObj = None \<and> faults s1 = Some e # fs"
  let ?a = "newObj\<lparr>oLastApplied := Some (document newObj)\<rparr>"
  have c: "createOrUpdate r t newObj s =
      ((ResourceUpdated, fst (ClientUpdate t ?a s1)), snd (ClientUpdate t ?a s1))"
    using h by (simp add: createOrUpdate_def SetLastAppliedAnnotation_def split: prod.splits)
  from h have f: "faults s1 = Some e # fs" by simp
  from h have o: "objects s1 = objects s" using ClientGet_Inr by blast
  show "fst (createOrUpdate r t newObj s) = (ResourceUpdated, Some e)"
    using c ClientUpdate_fault [OF f, of t ?a] by simp
  show "objects (snd (createOrUpdate r t newObj s)) = objects s"
    using c o ClientUpdate_fault [OF f, of t ?a] by simp
qed

text \<open>The four cases on the demo cluster: a failing annotation, a failing write.\<close>

theorem createOrUpdate_result_with_error_witness:
  "fst (createOrUpdate (demoReconciler\<lparr>annotationError := (\<lambda>obj. Some (Other ''marshal''))\<rparr>)
          DeploymentType demoObject emptyCluster) =
     (ResourceCreated, Some (Other ''marshal''))
   \<and> fst (createOrUpdate demoReconciler DeploymentType demoObject
            (emptyCluster\<lparr>faults := [None, Some (Other ''timeout'')]\<rparr>)) =
     (ResourceCreated, Some (Other ''timeout''))
   \<and> fst (createOrUpdate (demoReconciler\<lparr>annotationError := (\<lambda>obj. Some (Other ''marshal''))\<rparr>)
          DeploymentType (demoObject\<lparr>oBody := [(''spec'', ''img:v2'')]\<rparr>)
          (deployedCluster [])) =
     (ResourceUpdated, Some (Other ''marshal''))
   \<and> fst (createOrUpdate demoReconciler DeploymentType
            (demoObject\<lparr>oBody := [(''spec'', ''img:v2'')]\<rparr>)
            ((deployedCluster [])\<lparr>faults := [None, Some Conflict]\<rparr>)) =
     (ResourceUpdated, Some Conflict)"
proof -
  let ?r = "demoReconciler\<lparr>annotationError := (\<lambda>obj. Some (Other ''marshal''))\<rparr>"
  let ?new = "demoObject\<lparr>oBody := [(''spec'', ''img:v2'')]\<rparr>"
  let ?opts = "[IgnoreStatusFields, IgnoreField ''apiVersion'', IgnoreField ''kind'']"
  have g1: "ClientGet DeploymentType (ObjectKeyFromObject demoObject) (emptyCluster\<lparr>faults := fs\<rparr>) =
      (Inl NotFound,
       emptyCluster\<lparr>faults := tl fs, calls := [GetObject DeploymentType demo]\<rparr>)"
    if "fs = [] \<or> hd fs = None" for fs
    using that
    by (cases fs) (auto simp add: ClientGet_def serve_def issue_def emptyCluster_def
        ObjectKeyFromObject_def demoObject_def demo_def)
  have g2: "ClientGet DeploymentType (ObjectKeyFromObject ?new) ((deployedCluster [])\<lparr>faults := fs\<rparr>) =
      (Inr (demoObject\<lparr>oStatus := []\<rparr>),
       (deployedCluster [])\<lparr>faults := tl fs, calls := [GetObject DeploymentType demo]\<rparr>)"
    if "fs = [] \<or> hd fs = None" for fs
    using that
    by (cases fs) (auto simp add: ClientGet_def serve_def issue_def emptyCluster_def
        ObjectKeyFromObject_def demoObject_def demo_def deployedCluster_def demoCluster_def)
  have p: "Calculate r (demoObject\<lparr>oStatus := []\<rparr>) ?new ?opts = Inr [''spec'']"
    if "calculateError r = (\<lambda>c n. None)" for r
    using that
    by (simp add: Calculate_def controlledFields_def document_def demoObject_def)
  have e: "emptyCluster\<lparr>faults := []\<rparr> = emptyCluster"
    "(deployedCluster [])\<lparr>faults := []\<rparr> = deployedCluster []"
    by (simp_all add: emptyCluster_def deployedCluster_def demoCluster_def)
  have c1: "fst (createOrUpdate ?r DeploymentType demoObject emptyCluster) =
      (ResourceCreated, Some (Other ''marshal''))"
    using g1 [of "[]"] e
      createOrUpdate_result_with_error [where r = ?r and t = DeploymentType
        and newObj = demoObject and s = emptyCluster and e = "Other ''marshal''"
        and ?s1.0 = "emptyCluster\<lparr>faults := tl [], calls := [GetObject DeploymentType demo]\<rparr>"]
    by (simp add: demoReconciler_def)
  have c2: "fst (createOrUpdate demoReconciler DeploymentType demoObject
            (emptyCluster\<lparr>faults := [None, Some (Other ''timeout'')]\<rparr>)) =
     (ResourceCreated, Some (Other ''timeout''))"
    using g1 [of "[None, Some (Other ''timeout'')]"]
      createOrUpdate_result_with_error [where r = demoReconciler and t = DeploymentType
        and newObj = demoObject and e = "Other ''timeout''" and fs = "[]"
        and s = "emptyCluster\<lparr>faults := [None, Some (Other ''timeout'')]\<rparr>"
        and ?s1.0 = "emptyCluster\<lparr>faults := tl [None, Some (Other ''timeout'')],
                        calls := [GetObject DeploymentType demo]\<rparr>"]
    by (simp add: demoReconciler_def)
  have c3: "fst (createOrUpdate ?r DeploymentType ?new (deployedCluster [])) =
      (ResourceUpdated, Some (Other ''marshal''))"
    using g2 [of "[]"] e p [of ?r]
      createOrUpdate_result_with_error [where r = ?r and t = DeploymentType
        and newObj = ?new and s = "deployedCluster []" and e = "Other ''marshal''"
        and currObj = "demoObject\<lparr>oStatus := []\<rparr>" and p = "[''spec'']"
        and ?s1.0 = "(deployedCluster [])\<lparr>faults := tl [], calls := [GetObject DeploymentType demo]\<rparr>"]
    by (simp add: demoReconciler_def IsEmpty_def)
  have c4: "fst (createOrUpdate demoReconciler DeploymentType ?new
            ((deployedCluster [])\<lparr>faults := [None, Some Conflict]\<rparr>)) =
     (ResourceUpdated, Some Conflict)"
    using g2 [of "[None, Some Conflict]"] p [of demoReconciler]
      createOrUpdate_result_with_error [where r = demoReconciler and t = DeploymentType
        and newObj = ?new and e = Conflict and fs = "[]"
        and currObj = "demoObject\<lparr>oStatus := []\<rparr>" and p = "[''spec'']"
        and s = "(deployedCluster [])\<lparr>faults := [None, Some Conflict]\<rparr>"
        and ?s1.0 = "(deployedCluster [])\<lparr>faults := tl [None, Some Conflict],
                        calls := [GetObject DeploymentType demo]\<rparr>"]
    by (simp add: demoReconciler_def IsEmpty_def)
  show ?thesis using c1 c2 c3 c4 by simp
qed

text \<open>
  The annotation is not part of the serialised object, and a patch between objects of the
  same serialisation, or that differ in ignored fields only, is empty.
\<close>

lemma document_annotated [simp]: "document (obj\<lparr>oLastApplied := a\<rparr>) = document obj"
  by (simp add: document_def)

lemma ObjectKey_annotated [simp]:
  "ObjectKeyFromObject (obj\<lparr>oLastApplied := a\<rparr>) = ObjectKeyFromObject obj"
  by (simp add: ObjectKeyFromObject_def)

lemma ClientGet_served:
  "faults s = [] \<Longrightarrow>
     ClientGet t key s =
       ((case objects s (t, key) of None \<Rightarrow> Inl NotFound | Some obj \<Rightarrow> Inr obj),
        s\<lparr>calls := calls s @ [GetObject t key]\<rparr>)"
  by (simp add: ClientGet_def serve_def issue_def split: option.splits)

lemma ClientCreate_served:
  "faults s = [] \<Longrightarrow> objects s (t, ObjectKeyFromObject obj) = None \<Longrightarrow>
     ClientCreate t obj s =
       (None, s\<lparr>calls := calls s @ [CreateObject t obj],
                objects := (objects s)((t, ObjectKeyFromObject obj) := Some obj)\<rparr>)"
  by (simp add: ClientCreate_def serve_def issue_def)

lemma Calculate_same_document:
  "calculateError r currObj newObj = None \<Longrightarrow> document currObj = document newObj \<Longrightarrow>
     Calculate r currObj newObj opts = Inr []"
  by (simp add: Calculate_def)

lemma Calculate_confined:
  assumes "calculateError r live newObj = None"
    and "\<forall>k. k \<notin> set (map ignoredField opts) \<longrightarrow>
           map_of (document live) k = map_of (document newObj) k"
  shows "Calculate r live newObj opts = Inr []"
  using assms by (auto simp add: Calculate_def filter_empty_conv)

lemma Calculate_empty_iff:
  "Calculate r live newObj opts = Inr [] \<longleftrightarrow>
     calculateError r live newObj = None \<and>
     (\<forall>k \<in> set (controlledFields live newObj). k \<notin> set (map ignoredField opts) \<longrightarrow>
           map_of (document live) k = map_of (document newObj) k)"
  by (auto simp add: Calculate_def filter_empty_conv split: option.splits)

lemma document_ignored_fields:
  "k \<noteq> ''status'' \<Longrightarrow> k \<noteq> ''apiVersion'' \<Longrightarrow> k \<noteq> ''kind'' \<Longrightarrow>
     map_of (document (obj\<lparr>oStatus := st, oApiVersion := a, oKind := kd\<rparr>)) k =
     map_of (document obj) k"
  by (simp add: document_def)

lemma controlledFields_ignored_fields:
  "controlledFields (obj\<lparr>oStatus := st, oApiVersion := a, oKind := kd\<rparr>) newObj =
     controlledFields obj newObj"
  by (simp add: controlledFields_def)

lemma createOrUpdate_unchanged_patch:
  assumes "ClientGet t (ObjectKeyFromObject newObj) s = (Inr live, s1)"
    and "fst (createOrUpdate r t newObj s) = (ResourceUnchanged, None)"
  shows "Calculate r live newObj
           [IgnoreStatusFields, IgnoreField ''apiVersion'', IgnoreField ''kind''] = Inr []"
  using assms
  by (auto simp add: createOrUpdate_def IsEmpty_def split: sum.splits if_splits prod.splits)

text \<open>
  Claim C4. On a store that serves every call and does not hold the object yet, with the
  annotation and the patch calculation succeeding, the first \<^verbatim>\<open>createOrUpdate\<close> of an
  intended object returns Created and stores the annotated object, and a second one with
  the same intended object on the resulting store returns Unchanged, not Updated, and
  leaves the managed resources as they are.
\<close>

theorem createOrUpdate_idempotent:
  assumes absent: "objects s (t, ObjectKeyFromObject newObj) = None"
    and served: "faults s = []"
    and ann: "annotationError r newObj = None"
    and calc: "calculateError r (newObj\<lparr>oLastApplied := Some (document newObj)\<rparr>) newObj = None"
  shows "fst (createOrUpdate r t newObj s) = (ResourceCreated, None)
    \<and> fst (createOrUpdate r t newObj (snd (createOrUpdate r t newObj s))) =
        (ResourceUnchanged, None)
    \<and> objects (snd (createOrUpdate r t newObj (snd (createOrUpdate r t newObj s)))) =
        objects (snd (createOrUpdate r t newObj s))
    \<and> objects (snd (createOrUpdate r t newObj s)) (t, ObjectKeyFromObject newObj) =
        Some (newObj\<lparr>oLastApplied := Some (document newObj)\<rparr>)"
proof -
  let ?key = "ObjectKeyFromObject newObj"
  let ?a = "newObj\<lparr>oLastApplied := Some (document newObj)\<rparr>"
  let ?s1 = "s\<lparr>calls := calls s @ [GetObject t ?key, CreateObject t ?a],
               objects := (objects s)((t, ?key) := Some ?a)\<rparr>"
  have first: "createOrUpdate r t newObj s = ((ResourceCreated, None), ?s1)"
    using absent served ann
    by (simp add: createOrUpdate_def ClientGet_served ClientCreate_served
        SetLastAppliedAnnotation_def IgnoreNotFound_def IsNotFound_def)
  have "faults ?s1 = []" "objects ?s1 (t, ?key) = Some ?a"
    using served by simp_all
  then have second: "createOrUpdate r t newObj ?s1 =
      ((ResourceUnchanged, None), ?s1\<lparr>calls := calls ?s1 @ [GetObject t ?key]\<rparr>)"
    using calc
    by (simp add: createOrUpdate_def ClientGet_served Calculate_same_document IsEmpty_def)
  show ?thesis
    using second unfolding first by simp
qed

text \<open>Applying the demo object twice on the empty cluster.\<close>

theorem createOrUpdate_idempotent_witness:
  "fst (createOrUpdate demoReconciler DeploymentType demoObject emptyCluster) =
     (ResourceCreated, None)
   \<and> fst (createOrUpdate demoReconciler DeploymentType demoObject
            (snd (createOrUpdate demoReconciler DeploymentType demoObject emptyCluster))) =
     (ResourceUnchanged, None)
   \<and> objects (snd (createOrUpdate demoReconciler DeploymentType demoObject emptyCluster))
        (DeploymentType, demo) =
     Some (demoObject\<lparr>oLastApplied := Some (document demoObject)\<rparr>)"
proof -
  have absent: "objects emptyCluster (DeploymentType, ObjectKeyFromObject demoObject) = None"
    by (simp add: emptyCluster_def)
  have served: "faults emptyCluster = []"
    by (simp add: emptyCluster_def)
  have ann: "annotationError demoReconciler demoObject = None"
    by (simp add: demoReconciler_def)
  have calc: "calculateError demoReconciler
      (demoObject\<lparr>oLastApplied := Some (document demoObject)\<rparr>) demoObject = None"
    by (simp add: demoReconciler_def)
  have key: "ObjectKeyFromObject demoObject = demo"
    by (simp add: ObjectKeyFromObject_def demoObject_def demo_def)
  show ?thesis
    using createOrUpdate_idempotent [OF absent served ann calc] key by simp
qed

text \<open>
  Claim C5. When the live object and the intended object differ in the status, the
  apiVersion and the kind only, \<^verbatim>\<open>createOrUpdate\<close> returns Unchanged, its only call is the
  read, and the managed resources are as they were. And when \<^verbatim>\<open>createOrUpdate\<close> returns
  Unchanged on a store, it still does after the status, the apiVersion and the kind of the
  live object are overwritten.
\<close>

theorem createOrUpdate_ignores_store_managed_fields:
  assumes get: "ClientGet t (ObjectKeyFromObject newObj) s = (Inr live, s1)"
  shows "(calculateError r live newObj = None
      \<and> (\<forall>k. k \<noteq> ''status'' \<and> k \<noteq> ''apiVersion'' \<and> k \<noteq> ''kind'' \<longrightarrow>
             map_of (document live) k = map_of (document newObj) k)
     \<longrightarrow> createOrUpdate r t newObj s = ((ResourceUnchanged, None), s1)
         \<and> objects s1 = objects s
         \<and> calls s1 = calls s @ [GetObject t (ObjectKeyFromObject newObj)])
    \<and> (fst (createOrUpdate r t newObj s) = (ResourceUnchanged, None)
        \<and> faults s = []
        \<and> calculateError r (live\<lparr>oStatus := st, oApiVersion := a, oKind := kd\<rparr>) newObj = None
     \<longrightarrow> fst (createOrUpdate r t newObj
               (s\<lparr>objects := (objects s)((t, ObjectKeyFromObject newObj) :=
                     Some (live\<lparr>oStatus := st, oApiVersion := a, oKind := kd\<rparr>))\<rparr>)) =
           (ResourceUnchanged, None))"
proof (intro conjI impI)
  let ?opts = "[IgnoreStatusFields, IgnoreField ''apiVersion'', IgnoreField ''kind'']"
  assume h: "calculateError r live newObj = None
      \<and> (\<forall>k. k \<noteq> ''status'' \<and> k \<noteq> ''apiVersion'' \<and> k \<noteq> ''kind'' \<longrightarrow>
             map_of (document live) k = map_of (document newObj) k)"
  then have "Calculate r live newObj ?opts = Inr []"
    by (intro Calculate_confined) auto
  then show "createOrUpdate r t newObj s = ((ResourceUnchanged, None), s1)"
    using get by (simp add: createOrUpdate_def IsEmpty_def)
  show "objects s1 = objects s"
    and "calls s1 = calls s @ [GetObject t (ObjectKeyFromObject newObj)]"
    using ClientGet_Inr [OF get] by simp_all
next
  let ?opts = "[IgnoreStatusFields, IgnoreField ''apiVersion'', IgnoreField ''kind'']"
  let ?live = "live\<lparr>oStatus := st, oApiVersion := a, oKind := kd\<rparr>"
  let ?key = "ObjectKeyFromObject newObj"
  let ?s = "s\<lparr>objects := (objects s)((t, ?key) := Some ?live)\<rparr>"
  assume h: "fst (createOrUpdate r t newObj s) = (ResourceUnchanged, None)
        \<and> faults s = []
        \<and> calculateError r ?live newObj = None"
  then have "Calculate r live newObj ?opts = Inr []"
    using createOrUpdate_unchanged_patch [OF get] by simp
  then have agree: "\<forall>k \<in> set (controlledFields live newObj). k \<notin> set (map ignoredField ?opts) \<longrightarrow>
           map_of (document live) k = map_of (document newObj) k"
    by (simp only: Calculate_empty_iff) simp
  have "Calculate r ?live newObj ?opts = Inr []"
    unfolding Calculate_empty_iff controlledFields_ignored_fields
    using h agree by (auto simp add: document_ignored_fields)
  moreover have "ClientGet t ?key ?s = (Inr ?live, ?s\<lparr>calls := calls s @ [GetObject t ?key]\<rparr>)"
    using h by (simp add: ClientGet_served)
  ultimately show "fst (createOrUpdate r t newObj ?s) = (ResourceUnchanged, None)"
    by (simp add: createOrUpdate_def IsEmpty_def)
qed

text \<open>
  A live Deployment that reports itself available against an intended one of another
  apiVersion; and the demo Deployment before and after it reports a status.
\<close>

theorem createOrUpdate_ignores_store_managed_fields_witness:
  "createOrUpdate demoReconciler DeploymentType (demoObject\<lparr>oApiVersion := ''apps/v1''\<rparr>)
       (deployedCluster [\<lparr>dcType = ''Available'', dcStatus = ConditionTrue\<rparr>]) =
     ((ResourceUnchanged, None),
      (deployedCluster [\<lparr>dcType = ''Available'', dcStatus = ConditionTrue\<rparr>])
        \<lparr>calls := [GetObject DeploymentType demo]\<rparr>)
   \<and> fst (createOrUpdate demoReconciler DeploymentType demoObject (deployedCluster [])) =
       (ResourceUnchanged, None)
   \<and> fst (createOrUpdate demoReconciler DeploymentType demoObject
            (deployedCluster [\<lparr>dcType = ''Available'', dcStatus = ConditionTrue\<rparr>])) =
       (ResourceUnchanged, None)"
proof -
  let ?cs = "[\<lparr>dcType = ''Available'', dcStatus = ConditionTrue\<rparr>]"
  let ?new = "demoObject\<lparr>oApiVersion := ''apps/v1''\<rparr>"
  have key: "ObjectKeyFromObject ?new = demo" "ObjectKeyFromObject demoObject = demo"
    by (simp_all add: ObjectKeyFromObject_def demoObject_def demo_def)
  have get: "ClientGet DeploymentType demo (deployedCluster cs) =
      (Inr (demoObject\<lparr>oStatus := cs\<rparr>),
       (deployedCluster cs)\<lparr>calls := [GetObject DeploymentType demo]\<rparr>)" for cs
    by (simp add: ClientGet_def serve_def issue_def deployedCluster_def demoCluster_def
        emptyCluster_def)
  have calc: "calculateError demoReconciler x y = None" for x y
    by (simp add: demoReconciler_def)
  have confined: "\<forall>k. k \<noteq> ''status'' \<and> k \<noteq> ''apiVersion'' \<and> k \<noteq> ''kind'' \<longrightarrow>
      map_of (document (demoObject\<lparr>oStatus := ?cs\<rparr>)) k = map_of (document ?new) k"
    by (simp add: document_def demoObject_def)
  have one: "createOrUpdate demoReconciler DeploymentType ?new (deployedCluster ?cs) =
      ((ResourceUnchanged, None),
       (deployedCluster ?cs)\<lparr>calls := [GetObject DeploymentType demo]\<rparr>)"
    using createOrUpdate_ignores_store_managed_fields
      [where r = demoReconciler and t = DeploymentType and newObj = ?new
        and s = "deployedCluster ?cs" and live = "demoObject\<lparr>oStatus := ?cs\<rparr>"
        and ?s1.0 = "(deployedCluster ?cs)\<lparr>calls := [GetObject DeploymentType demo]\<rparr>"]
      get [of ?cs] calc confined key
    by simp
  have before: "fst (createOrUpdate demoReconciler DeploymentType demoObject (deployedCluster []))
      = (ResourceUnchanged, None)"
  proof -
    have "Calculate demoReconciler (demoObject\<lparr>oStatus := []\<rparr>) demoObject
        [IgnoreStatusFields, IgnoreField ''apiVersion'', IgnoreField ''kind''] = Inr []"
      by (simp add: Calculate_def controlledFields_def document_def demoObject_def
          demoReconciler_def)
    then show ?thesis
      by (simp add: createOrUpdate_def key get IsEmpty_def)
  qed
  have mutated: "(deployedCluster [])\<lparr>objects := (objects (deployedCluster []))
          ((DeploymentType, demo) := Some (demoObject\<lparr>oStatus := [], oStatus := ?cs,
              oApiVersion := ''v1'', oKind := ''Managed''\<rparr>))\<rparr> = deployedCluster ?cs"
    by (simp add: deployedCluster_def demoObject_def)
  have two: "fst (createOrUpdate demoReconciler DeploymentType demoObject (deployedCluster ?cs))
      = (ResourceUnchanged, None)"
    using createOrUpdate_ignores_store_managed_fields
      [where r = demoReconciler and t = DeploymentType and newObj = demoObject
        and s = "deployedCluster []" and live = "demoObject\<lparr>oStatus := []\<rparr>"
        and ?s1.0 = "(deployedCluster [])\<lparr>calls := [GetObject DeploymentType demo]\<rparr>"
        and st = ?cs and a = "''v1''" and kd = "''Managed''"]
      get [of "[]"] calc before key mutated
    by (simp add: deployedCluster_def demoCluster_def emptyCluster_def)
  show ?thesis using one before two by simp
qed

section \<open>The normal path\<close>

lemma pair_of: "fst x = a \<Longrightarrow> x = (a, snd x)"
  by auto

text \<open>
  Claim C6. On the normal path (the parent loaded, the finalizer in place, no deletion
  time stamp), when the three applies return without error, the result of
  \<^verbatim>\<open>updateRegistryResources\<close> is Unchanged exactly when all three are; and when the status
  is then set without error, \<^verbatim>\<open>Reconcile\<close> returns no error and asks for a requeue exactly
  when that result is not Unchanged.
\<close>

theorem requeue_iff_resources_changed:
  assumes load: "Get req s0 = (Inr loaded, sa)"
    and fin: "ensureFinalizer loaded sa = Inr (m, s)"
    and live: "DeletionTimestamp m = None"
    and d: "d = (if \<not> EnableWebhooks r then Default r m else m)"
    and p: "params = \<lparr>pName = snd req, pNamespace = fst req, pSpec = Spec d\<rparr>"
    and a1: "createOrUpdateServiceAccount r params d ''serviceaccount.yaml.tmpl'' s =
               ((r1, None), s1)"
    and a2: "createOrUpdateService r params d ''service.yaml.tmpl'' s1 = ((r2, None), s2)"
    and a3: "createOrUpdateDeployment r params d ''deployment.yaml.tmpl'' s2 = ((r3, None), s3)"
    and agg: "res = (if r3 \<noteq> ResourceUnchanged then r3
                    else if r2 \<noteq> ResourceUnchanged then r2 else r1)"
    and st: "setRegistryStatus r req res (logResultAsEvent d res s3) = (None, s4)"
  shows "updateRegistryResources r params d s = ((res, None), s3)
    \<and> (res = ResourceUnchanged \<longleftrightarrow>
         r1 = ResourceUnchanged \<and> r2 = ResourceUnchanged \<and> r3 = ResourceUnchanged)
    \<and> Reconcile r req s0 = ((\<lparr>Requeue = (res \<noteq> ResourceUnchanged)\<rparr>, None), s4)"
proof -
  have u: "updateRegistryResources r params d s = ((res, None), s3)"
    using a1 a2 a3 agg by (simp add: updateRegistryResources_def Let_def)
  have i: "res = ResourceUnchanged \<longleftrightarrow>
         r1 = ResourceUnchanged \<and> r2 = ResourceUnchanged \<and> r3 = ResourceUnchanged"
    using agg by auto
  have "reconcileResources r req m s =
      ((\<lparr>Requeue = (res \<noteq> ResourceUnchanged)\<rparr>, None), s4)"
    using u st d p by (simp add: reconcileResources_def Let_def)
  then have "Reconcile r req s0 = ((\<lparr>Requeue = (res \<noteq> ResourceUnchanged)\<rparr>, None), s4)"
    using load fin live by (simp add: Reconcile_def)
  with u i show ?thesis by simp
qed

text \<open>The first reconcile of the demo parent creates all three resources and requeues.\<close>

theorem requeue_iff_resources_changed_witness:
  "fst (Reconcile demoReconciler demo demoCluster) = (\<lparr>Requeue = True\<rparr>, None)
   \<and> fst (updateRegistryResources demoReconciler
            \<lparr>pName = ''demo'', pNamespace = ''ns1'', pSpec = [(''image'', ''img:v1'')]\<rparr>
            demoRegistry (demoCluster\<lparr>calls := [GetRegistry demo]\<rparr>)) =
       (ResourceCreated, None)"
proof -
  let ?p = "\<lparr>pName = ''demo'', pNamespace = ''ns1'', pSpec = [(''image'', ''img:v1'')]\<rparr>"
  let ?s = "demoCluster\<lparr>calls := [GetRegistry demo]\<rparr>"
  let ?s1 = "snd (createOrUpdateServiceAccount demoReconciler ?p demoRegistry
                ''serviceaccount.yaml.tmpl'' ?s)"
  let ?s2 = "snd (createOrUpdateService demoReconciler ?p demoRegistry
                ''service.yaml.tmpl'' ?s1)"
  let ?s3 = "snd (createOrUpdateDeployment demoReconciler ?p demoRegistry
                ''deployment.yaml.tmpl'' ?s2)"
  let ?s4 = "snd (setRegistryStatus demoReconciler demo ResourceCreated
                (logResultAsEvent demoRegistry ResourceCreated ?s3))"
  note defs = createOrUpdateServiceAccount_def createOrUpdateService_def
    createOrUpdateDeployment_def createOrUpdateResource_def Apply_def
    SetControllerReference_def createOrUpdate_def ClientGet_def ClientCreate_def
    serve_def issue_def SetLastAppliedAnnotation_def IgnoreNotFound_def IsNotFound_def
    ObjectKeyFromObject_def demoReconciler_def demoObject_def demoRegistry_def
    demoCluster_def emptyCluster_def demo_def
  have load: "Get demo demoCluster = (Inr demoRegistry, ?s)"
    by (simp add: Get_def serve_def issue_def demoCluster_def emptyCluster_def)
  have fin: "ensureFinalizer demoRegistry ?s = Inr (demoRegistry, ?s)"
    by (simp add: ensureFinalizer_def ContainsFinalizer_def demoRegistry_def)
  have live: "DeletionTimestamp demoRegistry = None"
    by (simp add: demoRegistry_def)
  have d: "demoRegistry =
      (if \<not> EnableWebhooks demoReconciler then Default demoReconciler demoRegistry
       else demoRegistry)"
    by (simp add: demoReconciler_def)
  have p: "?p = \<lparr>pName = snd demo, pNamespace = fst demo, pSpec = Spec demoRegistry\<rparr>"
    by (simp add: demo_def demoRegistry_def)
  have a1: "createOrUpdateServiceAccount demoReconciler ?p demoRegistry
      ''serviceaccount.yaml.tmpl'' ?s = ((ResourceCreated, None), ?s1)"
    by (rule pair_of) (simp add: defs)
  have a2: "createOrUpdateService demoReconciler ?p demoRegistry
      ''service.yaml.tmpl'' ?s1 = ((ResourceCreated, None), ?s2)"
    by (rule pair_of) (simp add: defs)
  have a3: "createOrUpdateDeployment demoReconciler ?p demoRegistry
      ''deployment.yaml.tmpl'' ?s2 = ((ResourceCreated, None), ?s3)"
    by (rule pair_of) (simp add: defs)
  have agg: "ResourceCreated =
      (if ResourceCreated \<noteq> ResourceUnchanged then ResourceCreated
       else if ResourceCreated \<noteq> ResourceUnchanged then ResourceCreated else ResourceCreated)"
    by simp
  have st: "setRegistryStatus demoReconciler demo ResourceCreated
      (logResultAsEvent demoRegistry ResourceCreated ?s3) = (None, ?s4)"
    by (rule pair_of)
      (simp add: defs setRegistryStatus_def Get_def StatusUpdate_def logResultAsEvent_def
        Event_def Let_def)
  show ?thesis
    using requeue_iff_resources_changed [OF load fin live d p a1 a2 a3 agg st]
    by simp
qed

section \<open>The deletion branch\<close>

lemma errorOf_simps [simp]: "errorOf (Inl e) = Some e" "errorOf (Inr x) = None"
  by (simp_all add: errorOf_def)

lemma objectAfter_simps [simp]: "objectAfter m (Inl e) = m" "objectAfter m (Inr x) = x"
  by (simp_all add: objectAfter_def)

lemma tl_faults_subset: "x \<in> set (tl fs) \<Longrightarrow> x \<in> set fs"
  by (cases fs) auto

lemma StatusUpdate_step:
  assumes "StatusUpdate x s = (res, s')"
  shows "calls s' = calls s @ [UpdateRegistryStatus x]"
    and "faults s' = tl (faults s)"
    and "objects s' = objects s"
    and "errorOf res = Some e \<Longrightarrow> e = NotFound \<or> Some e \<in> set (faults s)"
  using assms
  by (auto simp: StatusUpdate_def Let_def split: option.splits prod.splits
      dest: serve_result)

lemma Update_step:
  assumes "Update x s = (res, s')"
  shows "calls s' = calls s @ [UpdateRegistry x]"
    and "faults s' = tl (faults s)"
    and "objects s' = objects s"
    and "errorOf res = Some e \<Longrightarrow> e = NotFound \<or> Some e \<in> set (faults s)"
  using assms
  by (auto simp: Update_def Let_def split: option.splits prod.splits
      dest: serve_result)

lemma Get_step:
  assumes "Get key s = (res, s')"
  shows "calls s' = calls s @ [GetRegistry key]"
    and "faults s' = tl (faults s)"
    and "objects s' = objects s"
    and "registries s' = registries s"
    and "errorOf res = Some e \<Longrightarrow> e = NotFound \<or> Some e \<in> set (faults s)"
  using assms
  by (auto simp: Get_def split: option.splits prod.splits dest: serve_result)

lemma Event_step:
  "calls (Event ty rs msg s) = calls s @ [RecordEvent ty rs msg]"
  "faults (Event ty rs msg s) = faults s"
  "objects (Event ty rs msg s) = objects s"
  "registries (Event ty rs msg s) = registries s"
  by (simp_all add: Event_def issue_def)

lemma IgnoreDeletingErrors_fatal:
  "IgnoreDeletingErrors err \<noteq> None \<Longrightarrow>
     \<exists>e. err = Some e \<and> \<not> IsNotFound e \<and> \<not> IsConflict e"
  by (auto simp: IgnoreDeletingErrors_def split: option.splits if_splits)

lemma reconcileDeletion_sequence:
  assumes "ContainsFinalizer m modelRegistryFinalizer"
    and "m1 = m\<lparr>Conditions := SetStatusCondition (Conditions m) (degradedUnknown (Name m))\<rparr>"
    and "StatusUpdate m1 s = (res1, s1)"
    and "s2 = doFinalizerOperationsForModelRegistry (objectAfter m1 res1) s1"
    and "Get req s2 = (res3, s3)"
    and "m3 = objectAfter (objectAfter m1 res1) res3"
    and "m4 = m3\<lparr>Conditions := SetStatusCondition (Conditions m3) (degradedTrue (Name m3))\<rparr>"
    and "StatusUpdate m4 s3 = (res4, s4)"
    and "RemoveFinalizer (objectAfter m4 res4) modelRegistryFinalizer = (ok, m5)"
    and "Update m5 s4 = (res5, s5)"
  shows "reconcileDeletion req m s =
     (if IgnoreDeletingErrors (errorOf res1) \<noteq> None
      then ((\<lparr>Requeue = False\<rparr>, errorOf res1), s1)
      else if IgnoreDeletingErrors (errorOf res3) \<noteq> None
      then ((\<lparr>Requeue = False\<rparr>, errorOf res3), s3)
      else if IgnoreDeletingErrors (errorOf res4) \<noteq> None
      then ((\<lparr>Requeue = False\<rparr>, errorOf res4), s4)
      else if \<not> ok then ((\<lparr>Requeue = True\<rparr>, None), s4)
      else if IgnoreDeletingErrors (errorOf res5) \<noteq> None
      then ((\<lparr>Requeue = False\<rparr>, errorOf res5), s5)
      else ((\<lparr>Requeue = False\<rparr>, None), s5))"
  using assms by (simp add: reconcileDeletion_def Let_def)

lemma SetStatusCondition_status:
  "map_option Status (FindStatusCondition (SetStatusCondition cs c) (Type c)) = Some (Status c)"
  by (simp add: FindStatusCondition_Set)

lemma RemoveFinalizer_removed:
  "RemoveFinalizer x f = (ok, y) \<Longrightarrow> f \<notin> set (Finalizers y)"
  by (auto simp: RemoveFinalizer_def Let_def)

lemma reconcileDeletion_run:
  assumes fin: "ContainsFinalizer m modelRegistryFinalizer"
  shows "\<exists>n msg m4 m5.
      calls (snd (reconcileDeletion req m s)) =
        calls s @ take n
          [UpdateRegistryStatus
             (m\<lparr>Conditions := SetStatusCondition (Conditions m) (degradedUnknown (Name m))\<rparr>),
           RecordEvent ''Warning'' ''Deleting'' msg,
           GetRegistry req,
           UpdateRegistryStatus m4,
           UpdateRegistry m5]
      \<and> map_option Status (FindStatusCondition (Conditions m4) ConditionTypeDegraded) =
          Some ConditionTrue
      \<and> modelRegistryFinalizer \<notin> set (Finalizers m5)
      \<and> (fst (reconcileDeletion req m s) = (\<lparr>Requeue = False\<rparr>, None) \<longrightarrow> n = 5)
      \<and> (\<forall>e. snd (fst (reconcileDeletion req m s)) = Some e \<longrightarrow>
             \<not> IsNotFound e \<and> \<not> IsConflict e \<and> Some e \<in> set (faults s))"
proof -
  define m1 where "m1 = m\<lparr>Conditions := SetStatusCondition (Conditions m) (degradedUnknown (Name m))\<rparr>"
  obtain res1 s1 where u1: "StatusUpdate m1 s = (res1, s1)"
    by (cases "StatusUpdate m1 s")
  define s2 where "s2 = doFinalizerOperationsForModelRegistry (objectAfter m1 res1) s1"
  obtain res3 s3 where g: "Get req s2 = (res3, s3)"
    by (cases "Get req s2")
  define m3 where "m3 = objectAfter (objectAfter m1 res1) res3"
  define m4 where "m4 = m3\<lparr>Conditions := SetStatusCondition (Conditions m3) (degradedTrue (Name m3))\<rparr>"
  obtain res4 s4 where u2: "StatusUpdate m4 s3 = (res4, s4)"
    by (cases "StatusUpdate m4 s3")
  obtain ok m5 where rf: "RemoveFinalizer (objectAfter m4 res4) modelRegistryFinalizer = (ok, m5)"
    by (cases "RemoveFinalizer (objectAfter m4 res4) modelRegistryFinalizer")
  obtain res5 s5 where u3: "Update m5 s4 = (res5, s5)"
    by (cases "Update m5 s4")
  note seq = reconcileDeletion_sequence [OF fin m1_def u1 s2_def g m3_def m4_def u2 rf u3]
  define msg where "msg = Sprintf ''Custom Resource %s is being deleted from the namespace %s''
          [Name (objectAfter m1 res1), Namespace (objectAfter m1 res1)]"
  let ?steps = "[UpdateRegistryStatus m1, RecordEvent ''Warning'' ''Deleting'' msg,
      GetRegistry req, UpdateRegistryStatus m4, UpdateRegistry m5]"
  have c1: "calls s1 = calls s @ take 1 ?steps"
    using StatusUpdate_step(1) [OF u1] by simp
  have c2: "calls s2 = calls s @ take 2 ?steps"
    using c1 by (simp add: s2_def doFinalizerOperationsForModelRegistry_def Event_step msg_def)
  have c3: "calls s3 = calls s @ take 3 ?steps"
    using Get_step(1) [OF g] c2 by simp
  have c4: "calls s4 = calls s @ take 4 ?steps"
    using StatusUpdate_step(1) [OF u2] c3 by simp
  have c5: "calls s5 = calls s @ take 5 ?steps"
    using Update_step(1) [OF u3] c4 by simp
  have f1: "faults s1 = tl (faults s)"
    using StatusUpdate_step(2) [OF u1] .
  have f2: "faults s2 = tl (faults s)"
    using f1 by (simp add: s2_def doFinalizerOperationsForModelRegistry_def Event_step)
  have f3: "faults s3 = tl (tl (faults s))"
    using Get_step(2) [OF g] f2 by simp
  have f4: "faults s4 = tl (tl (tl (faults s)))"
    using StatusUpdate_step(2) [OF u2] f3 by simp
  have e1: "Some e \<in> set (faults s)"
    if "errorOf res1 = Some e" "\<not> IsNotFound e" for e
    using StatusUpdate_step(4) [OF u1 that(1)] that(2) by (simp add: IsNotFound_def)
  have e3: "Some e \<in> set (faults s)"
    if "errorOf res3 = Some e" "\<not> IsNotFound e" for e
    using Get_step(5) [OF g that(1)] that(2) f2
    by (auto simp add: IsNotFound_def dest: tl_faults_subset)
  have e4: "Some e \<in> set (faults s)"
    if "errorOf res4 = Some e" "\<not> IsNotFound e" for e
    using StatusUpdate_step(4) [OF u2 that(1)] that(2) f3
    by (auto simp add: IsNotFound_def dest: tl_faults_subset)
  have e5: "Some e \<in> set (faults s)"
    if "errorOf res5 = Some e" "\<not> IsNotFound e" for e
    using Update_step(4) [OF u3 that(1)] that(2) f4
    by (auto simp add: IsNotFound_def dest: tl_faults_subset)
  have d4: "map_option Status (FindStatusCondition (Conditions m4) ConditionTypeDegraded) =
      Some ConditionTrue"
    using SetStatusCondition_status [of "Conditions m3" "degradedTrue (Name m3)"]
    by (simp add: m4_def degradedTrue_def)
  have r5: "modelRegistryFinalizer \<notin> set (Finalizers m5)"
    using RemoveFinalizer_removed [OF rf] .
  consider (a) "IgnoreDeletingErrors (errorOf res1) \<noteq> None"
    | (b) "IgnoreDeletingErrors (errorOf res1) = None"
          "IgnoreDeletingErrors (errorOf res3) \<noteq> None"
    | (c) "IgnoreDeletingErrors (errorOf res1) = None"
          "IgnoreDeletingErrors (errorOf res3) = None"
          "IgnoreDeletingErrors (errorOf res4) \<noteq> None"
    | (d) "IgnoreDeletingErrors (errorOf res1) = None"
          "IgnoreDeletingErrors (errorOf res3) = None"
          "IgnoreDeletingErrors (errorOf res4) = None" "\<not> ok"
    | (e) "IgnoreDeletingErrors (errorOf res1) = None"
          "IgnoreDeletingErrors (errorOf res3) = None"
          "IgnoreDeletingErrors (errorOf res4) = None" "ok"
          "IgnoreDeletingErrors (errorOf res5) \<noteq> None"
    | (f) "IgnoreDeletingErrors (errorOf res1) = None"
          "IgnoreDeletingErrors (errorOf res3) = None"
          "IgnoreDeletingErrors (errorOf res4) = None" "ok"
          "IgnoreDeletingErrors (errorOf res5) = None"
    by blast
  then have "\<exists>n.
      calls (snd (reconcileDeletion req m s)) = calls s @ take n ?steps
      \<and> (fst (reconcileDeletion req m s) = (\<lparr>Requeue = False\<rparr>, None) \<longrightarrow> n = 5)
      \<and> (\<forall>e. snd (fst (reconcileDeletion req m s)) = Some e \<longrightarrow>
             \<not> IsNotFound e \<and> \<not> IsConflict e \<and> Some e \<in> set (faults s))"
  proof cases
    case a
    obtain e where "errorOf res1 = Some e" "\<not> IsNotFound e" "\<not> IsConflict e"
      using IgnoreDeletingErrors_fatal [OF a] by blast
    then show ?thesis
      using a e1 c1 by (intro exI [of _ 1]) (simp add: seq)
  next
    case b
    obtain e where "errorOf res3 = Some e" "\<not> IsNotFound e" "\<not> IsConflict e"
      using IgnoreDeletingErrors_fatal [OF b(2)] by blast
    then show ?thesis
      using b e3 c3 by (intro exI [of _ 3]) (simp add: seq)
  next
    case c
    obtain e where "errorOf res4 = Some e" "\<not> IsNotFound e" "\<not> IsConflict e"
      using IgnoreDeletingErrors_fatal [OF c(3)] by blast
    then show ?thesis
      using c e4 c4 by (intro exI [of _ 4]) (simp add: seq)
  next
    case d
    then show ?thesis
      using c4 by (intro exI [of _ 4]) (simp add: seq)
  next
    case e
    obtain e' where "errorOf res5 = Some e'" "\<not> IsNotFound e'" "\<not> IsConflict e'"
      using IgnoreDeletingErrors_fatal [OF e(5)] by blast
    then show ?thesis
      using e e5 c5 by (intro exI [of _ 5]) (simp add: seq)
  next
    case f
    then show ?thesis
      using c5 by (intro exI [of _ 5]) (simp add: seq)
  qed
  with d4 r5 show ?thesis
    unfolding m1_def by blast
qed

lemma ensureFinalizer_present:
  "ContainsFinalizer m modelRegistryFinalizer \<Longrightarrow> ensureFinalizer m s = Inr (m, s)"
  by (simp add: ensureFinalizer_def)

lemma Reconcile_deleting:
  assumes "Get req s = (Inr m, s1)" and "DeletionTimestamp m \<noteq> None"
    and "ContainsFinalizer m modelRegistryFinalizer"
  shows "Reconcile r req s = reconcileDeletion req m s1"
  using assms by (simp add: Reconcile_def ensureFinalizer_present)

text \<open>
  Claim C7. A reconcile that loads a parent with the deletion time stamp set and the
  finalizer present issues, after the load, an initial part of this sequence of calls and
  nothing else: the status update that sets Degraded to Unknown, the deletion event of the
  cleanup, the re-read of the parent, the status update that sets Degraded to True, the
  update that removes the finalizer. It issues all five when it returns without error and
  without requeue. So the cleanup always comes before the removal of the finalizer.
\<close>

theorem deletion_steps_in_order:
  assumes load: "Get req s = (Inr m, s1)"
    and del: "DeletionTimestamp m \<noteq> None"
    and fin: "ContainsFinalizer m modelRegistryFinalizer"
  shows "\<exists>n msg m1 m4 m5.
      calls (snd (Reconcile r req s)) =
        calls s @ GetRegistry req # take n
          [UpdateRegistryStatus m1,
           RecordEvent ''Warning'' ''Deleting'' msg,
           GetRegistry req,
           UpdateRegistryStatus m4,
           UpdateRegistry m5]
      \<and> m1 = m\<lparr>Conditions := SetStatusCondition (Conditions m) (degradedUnknown (Name m))\<rparr>
      \<and> map_option Status (FindStatusCondition (Conditions m1) ConditionTypeDegraded) =
          Some ConditionUnknown
      \<and> map_option Status (FindStatusCondition (Conditions m4) ConditionTypeDegraded) =
          Some ConditionTrue
      \<and> modelRegistryFinalizer \<notin> set (Finalizers m5)
      \<and> (fst (Reconcile r req s) = (\<lparr>Requeue = False\<rparr>, None) \<longrightarrow> n = 5)"
proof -
  have c: "calls s1 = calls s @ [GetRegistry req]"
    using Get_step(1) [OF load] .
  have u: "map_option Status (FindStatusCondition
      (Conditions (m\<lparr>Conditions := SetStatusCondition (Conditions m) (degradedUnknown (Name m))\<rparr>))
      ConditionTypeDegraded) = Some ConditionUnknown"
    using SetStatusCondition_status [of "Conditions m" "degradedUnknown (Name m)"]
    by (simp add: degradedUnknown_def)
  show ?thesis
    using reconcileDeletion_run [OF fin, of req s1] u
    unfolding Reconcile_deleting [OF load del fin] c
    by (simp only: append_Cons append_Nil append_assoc) blast
qed

lemma Get_deletingCluster:
  "Get demo (deletingCluster\<lparr>faults := fs\<rparr>) =
     (case fs of
        Some e # rest \<Rightarrow> (Inl e, deletingCluster\<lparr>faults := rest, calls := [GetRegistry demo]\<rparr>)
      | None # rest \<Rightarrow>
          (Inr deletingRegistry, deletingCluster\<lparr>faults := rest, calls := [GetRegistry demo]\<rparr>)
      | [] \<Rightarrow> (Inr deletingRegistry, deletingCluster\<lparr>faults := [], calls := [GetRegistry demo]\<rparr>))"
  by (simp add: Get_def serve_def issue_def deletingCluster_def emptyCluster_def
      split: list.splits option.splits)

lemma deletingRegistry_facts:
  "DeletionTimestamp deletingRegistry = Some 1"
  "ContainsFinalizer deletingRegistry modelRegistryFinalizer"
  "(Namespace deletingRegistry, Name deletingRegistry) = demo"
  by (simp_all add: deletingRegistry_def demoRegistry_def ContainsFinalizer_def demo_def)

lemma Reconcile_deletingCluster:
  "fst (Reconcile demoReconciler demo deletingCluster) = (\<lparr>Requeue = False\<rparr>, None)"
  by (simp add: Reconcile_def ensureFinalizer_def reconcileDeletion_def Get_def
      StatusUpdate_def Update_def serve_def issue_def deletingCluster_def emptyCluster_def
      deletingRegistry_def demoRegistry_def ContainsFinalizer_def RemoveFinalizer_def
      doFinalizerOperationsForModelRegistry_def Event_def IgnoreDeletingErrors_def
      errorOf_def objectAfter_def demo_def Let_def)

text \<open>The demo parent marked for deletion, on a store that serves every call.\<close>

theorem deletion_steps_in_order_witness:
  "Get demo deletingCluster =
     (Inr deletingRegistry, deletingCluster\<lparr>calls := [GetRegistry demo]\<rparr>)
   \<and> DeletionTimestamp deletingRegistry = Some 1
   \<and> ContainsFinalizer deletingRegistry modelRegistryFinalizer
   \<and> fst (Reconcile demoReconciler demo deletingCluster) = (\<lparr>Requeue = False\<rparr>, None)
   \<and> (\<exists>msg m1 m4 m5.
        calls (snd (Reconcile demoReconciler demo deletingCluster)) =
          [GetRegistry demo, UpdateRegistryStatus m1, RecordEvent ''Warning'' ''Deleting'' msg,
           GetRegistry demo, UpdateRegistryStatus m4, UpdateRegistry m5]
        \<and> map_option Status (FindStatusCondition (Conditions m1) ConditionTypeDegraded) =
            Some ConditionUnknown
        \<and> map_option Status (FindStatusCondition (Conditions m4) ConditionTypeDegraded) =
            Some ConditionTrue
        \<and> modelRegistryFinalizer \<notin> set (Finalizers m5))"
proof -
  have load: "Get demo deletingCluster =
     (Inr deletingRegistry, deletingCluster\<lparr>calls := [GetRegistry demo]\<rparr>)"
    using Get_deletingCluster [of "[]"] by (simp add: deletingCluster_def emptyCluster_def)
  have del: "DeletionTimestamp deletingRegistry \<noteq> None"
    by (simp add: deletingRegistry_facts)
  have none: "calls deletingCluster = []"
    by (simp add: deletingCluster_def emptyCluster_def)
  show ?thesis
    using deletion_steps_in_order [OF load del deletingRegistry_facts(2), of demoReconciler]
      load deletingRegistry_facts Reconcile_deletingCluster none
    by auto
qed

text \<open>
  A call whose forced outcome is at the head of the list: the deletion branch ignores its
  error exactly when it ignores the forced one, and a forced error that is not ignored is
  the error of the call.
\<close>

lemma IgnoreDeletingErrors_NotFound [simp]:
  "IgnoreDeletingErrors (Some NotFound) = None" "IgnoreDeletingErrors None = None"
  by (simp_all add: IgnoreDeletingErrors_def IsNotFound_def)

lemma serve_head:
  "serve c s = (f', s') \<Longrightarrow> faults s = f # fs \<Longrightarrow> f' = f \<and> faults s' = fs"
  by (auto simp: serve_def issue_def)

lemma StatusUpdate_head:
  assumes "StatusUpdate x s = (res, s')" and "faults s = f # fs"
  shows "IgnoreDeletingErrors (errorOf res) = IgnoreDeletingErrors f
    \<and> (IgnoreDeletingErrors f \<noteq> None \<longrightarrow> errorOf res = f) \<and> faults s' = fs"
proof -
  obtain f' s1 where sv: "serve (UpdateRegistryStatus x) s = (f', s1)"
    by (cases "serve (UpdateRegistryStatus x) s")
  from serve_head [OF sv assms(2)] have "f' = f" "faults s1 = fs" by simp_all
  then show ?thesis
    using assms(1) sv
    by (cases f; cases "registries s1 (Namespace x, Name x)")
      (auto simp: StatusUpdate_def Let_def)
qed

lemma Update_head:
  assumes "Update x s = (res, s')" and "faults s = f # fs"
  shows "IgnoreDeletingErrors (errorOf res) = IgnoreDeletingErrors f
    \<and> (IgnoreDeletingErrors f \<noteq> None \<longrightarrow> errorOf res = f) \<and> faults s' = fs"
proof -
  obtain f' s1 where sv: "serve (UpdateRegistry x) s = (f', s1)"
    by (cases "serve (UpdateRegistry x) s")
  from serve_head [OF sv assms(2)] have "f' = f" "faults s1 = fs" by simp_all
  then show ?thesis
    using assms(1) sv
    by (cases f; cases "registries s1 (Namespace x, Name x)")
      (auto simp: Update_def Let_def)
qed

lemma Get_head:
  assumes "Get key s = (res, s')" and "faults s = f # fs"
  shows "IgnoreDeletingErrors (errorOf res) = IgnoreDeletingErrors f
    \<and> (IgnoreDeletingErrors f \<noteq> None \<longrightarrow> errorOf res = f) \<and> faults s' = fs"
proof -
  obtain f' s1 where sv: "serve (GetRegistry key) s = (f', s1)"
    by (cases "serve (GetRegistry key) s")
  from serve_head [OF sv assms(2)] have "f' = f" "faults s1 = fs" by simp_all
  then show ?thesis
    using assms(1) sv
    by (cases f; cases "registries s1 key") (auto simp: Get_def)
qed

text \<open>
  The object in hand keeps the finalizer and its identity through the calls of the
  deletion branch, as long as the parent stored under the request does.
\<close>

lemma StatusUpdate_keeps:
  assumes "StatusUpdate x s = (res, s')"
    and "modelRegistryFinalizer \<in> set (Finalizers x)" and "(Namespace x, Name x) = req"
    and "\<forall>live. registries s req = Some live \<longrightarrow>
           modelRegistryFinalizer \<in> set (Finalizers live) \<and> (Namespace live, Name live) = req"
  shows "modelRegistryFinalizer \<in> set (Finalizers (objectAfter x res))
    \<and> (Namespace (objectAfter x res), Name (objectAfter x res)) = req
    \<and> (\<forall>live. registries s' req = Some live \<longrightarrow>
           modelRegistryFinalizer \<in> set (Finalizers live) \<and> (Namespace live, Name live) = req)"
proof -
  obtain f' s1 where sv: "serve (UpdateRegistryStatus x) s = (f', s1)"
    by (cases "serve (UpdateRegistryStatus x) s")
  from serve_result [OF sv] have r: "registries s1 = registries s" by simp
  show ?thesis
    using assms sv r
    by (cases f'; cases "registries s req") (auto simp: StatusUpdate_def Let_def)
qed

lemma Get_keeps:
  assumes "Get req s = (res, s')"
    and "modelRegistryFinalizer \<in> set (Finalizers x)" and "(Namespace x, Name x) = req"
    and "\<forall>live. registries s req = Some live \<longrightarrow>
           modelRegistryFinalizer \<in> set (Finalizers live) \<and> (Namespace live, Name live) = req"
  shows "modelRegistryFinalizer \<in> set (Finalizers (objectAfter x res))
    \<and> (Namespace (objectAfter x res), Name (objectAfter x res)) = req
    \<and> (\<forall>live. registries s' req = Some live \<longrightarrow>
           modelRegistryFinalizer \<in> set (Finalizers live) \<and> (Namespace live, Name live) = req)"
proof -
  obtain f' s1 where sv: "serve (GetRegistry req) s = (f', s1)"
    by (cases "serve (GetRegistry req) s")
  from serve_result [OF sv] have r: "registries s1 = registries s" by simp
  show ?thesis
    using assms sv r
    by (cases f'; cases "registries s req") (auto simp: Get_def)
qed

lemma RemoveFinalizer_ok:
  "f \<in> set (Finalizers x) \<Longrightarrow> fst (RemoveFinalizer x f)"
proof -
  assume "f \<in> set (Finalizers x)"
  then have "length (filter (\<lambda>y. y \<noteq> f) (Finalizers x)) < length (Finalizers x)"
    by (intro length_filter_less [of f]) auto
  then show ?thesis
    by (simp add: RemoveFinalizer_def Let_def)
qed

lemma reconcileDeletion_fatal_writes:
  assumes fin: "ContainsFinalizer m modelRegistryFinalizer"
    and ident: "(Namespace m, Name m) = req"
    and stored: "registries s req = Some m"
  shows "(\<forall>f1 rest. faults s = f1 # rest \<and> IgnoreDeletingErrors f1 \<noteq> None
            \<longrightarrow> fst (reconcileDeletion req m s) = (\<lparr>Requeue = False\<rparr>, f1))
    \<and> (\<forall>f1 f2 f3 rest. faults s = f1 # f2 # f3 # rest
            \<and> IgnoreDeletingErrors f1 = None \<and> IgnoreDeletingErrors f2 = None
            \<and> IgnoreDeletingErrors f3 \<noteq> None
            \<longrightarrow> fst (reconcileDeletion req m s) = (\<lparr>Requeue = False\<rparr>, f3))
    \<and> (\<forall>f1 f2 f3 f4 rest. faults s = f1 # f2 # f3 # f4 # rest
            \<and> IgnoreDeletingErrors f1 = None \<and> IgnoreDeletingErrors f2 = None
            \<and> IgnoreDeletingErrors f3 = None \<and> IgnoreDeletingErrors f4 \<noteq> None
            \<longrightarrow> fst (reconcileDeletion req m s) = (\<lparr>Requeue = False\<rparr>, f4))"
proof -
  define m1 where "m1 = m\<lparr>Conditions := SetStatusCondition (Conditions m) (degradedUnknown (Name m))\<rparr>"
  obtain res1 s1 where u1: "StatusUpdate m1 s = (res1, s1)"
    by (cases "StatusUpdate m1 s")
  define s2 where "s2 = doFinalizerOperationsForModelRegistry (objectAfter m1 res1) s1"
  obtain res3 s3 where g: "Get req s2 = (res3, s3)"
    by (cases "Get req s2")
  define m3 where "m3 = objectAfter (objectAfter m1 res1) res3"
  define m4 where "m4 = m3\<lparr>Conditions := SetStatusCondition (Conditions m3) (degradedTrue (Name m3))\<rparr>"
  obtain res4 s4 where u2: "StatusUpdate m4 s3 = (res4, s4)"
    by (cases "StatusUpdate m4 s3")
  obtain ok m5 where rf: "RemoveFinalizer (objectAfter m4 res4) modelRegistryFinalizer = (ok, m5)"
    by (cases "RemoveFinalizer (objectAfter m4 res4) modelRegistryFinalizer")
  obtain res5 s5 where u3: "Update m5 s4 = (res5, s5)"
    by (cases "Update m5 s4")
  note seq = reconcileDeletion_sequence [OF fin m1_def u1 s2_def g m3_def m4_def u2 rf u3]
  have f2: "faults s2 = faults s1" and r2: "registries s2 = registries s1"
    by (simp_all add: s2_def doFinalizerOperationsForModelRegistry_def Event_step)
  have p1: "modelRegistryFinalizer \<in> set (Finalizers m1)" "(Namespace m1, Name m1) = req"
    using fin ident by (simp_all add: m1_def ContainsFinalizer_def)
  have q: "\<forall>live. registries s req = Some live \<longrightarrow>
      modelRegistryFinalizer \<in> set (Finalizers live) \<and> (Namespace live, Name live) = req"
    using stored fin ident by (simp add: ContainsFinalizer_def)
  note k1 = StatusUpdate_keeps [OF u1 p1 q]
  have k3: "modelRegistryFinalizer \<in> set (Finalizers m3)
      \<and> (Namespace m3, Name m3) = req
      \<and> (\<forall>live. registries s3 req = Some live \<longrightarrow>
           modelRegistryFinalizer \<in> set (Finalizers live) \<and> (Namespace live, Name live) = req)"
    unfolding m3_def using k1 r2 by (intro Get_keeps [OF g]) simp_all
  have p4: "modelRegistryFinalizer \<in> set (Finalizers m4)" "(Namespace m4, Name m4) = req"
    using k3 by (simp_all add: m4_def)
  have k4: "modelRegistryFinalizer \<in> set (Finalizers (objectAfter m4 res4))"
    using StatusUpdate_keeps [OF u2 p4] k3 by simp
  have ok: "ok"
    using RemoveFinalizer_ok [OF k4] rf by simp
  show ?thesis
  proof (intro conjI allI impI)
    fix f1 rest
    assume h: "faults s = f1 # rest \<and> IgnoreDeletingErrors f1 \<noteq> None"
    then show "fst (reconcileDeletion req m s) = (\<lparr>Requeue = False\<rparr>, f1)"
      using StatusUpdate_head [OF u1, of f1 rest] by (simp add: seq)
  next
    fix f1 f2' f3 rest
    assume h: "faults s = f1 # f2' # f3 # rest
            \<and> IgnoreDeletingErrors f1 = None \<and> IgnoreDeletingErrors f2' = None
            \<and> IgnoreDeletingErrors f3 \<noteq> None"
    then have a1: "IgnoreDeletingErrors (errorOf res1) = None" "faults s2 = f2' # f3 # rest"
      using StatusUpdate_head [OF u1, of f1 "f2' # f3 # rest"] f2 by simp_all
    then have a3: "IgnoreDeletingErrors (errorOf res3) = None" "faults s3 = f3 # rest"
      using Get_head [OF g, of f2' "f3 # rest"] h by simp_all
    then have "IgnoreDeletingErrors (errorOf res4) \<noteq> None" "errorOf res4 = f3"
      using StatusUpdate_head [OF u2, of f3 rest] h by simp_all
    then show "fst (reconcileDeletion req m s) = (\<lparr>Requeue = False\<rparr>, f3)"
      using a1 a3 by (simp add: seq)
  next
    fix f1 f2' f3 f4 rest
    assume h: "faults s = f1 # f2' # f3 # f4 # rest
            \<and> IgnoreDeletingErrors f1 = None \<and> IgnoreDeletingErrors f2' = None
            \<and> IgnoreDeletingErrors f3 = None \<and> IgnoreDeletingErrors f4 \<noteq> None"
    then have a1: "IgnoreDeletingErrors (errorOf res1) = None" "faults s2 = f2' # f3 # f4 # rest"
      using StatusUpdate_head [OF u1, of f1 "f2' # f3 # f4 # rest"] f2 by simp_all
    then have a3: "IgnoreDeletingErrors (errorOf res3) = None" "faults s3 = f3 # f4 # rest"
      using Get_head [OF g, of f2' "f3 # f4 # rest"] h by simp_all
    then have a4: "IgnoreDeletingErrors (errorOf res4) = None" "faults s4 = f4 # rest"
      using StatusUpdate_head [OF u2, of f3 "f4 # rest"] h by simp_all
    then have "IgnoreDeletingErrors (errorOf res5) \<noteq> None" "errorOf res5 = f4"
      using Update_head [OF u3, of f4 rest] h by simp_all
    then show "fst (reconcileDeletion req m s) = (\<lparr>Requeue = False\<rparr>, f4)"
      using a1 a3 a4 ok by (simp add: seq)
  qed
qed

lemma reconcileDeletion_error:
  assumes "ContainsFinalizer m modelRegistryFinalizer"
    and "snd (fst (reconcileDeletion req m s)) = Some e"
  shows "\<not> IsNotFound e \<and> \<not> IsConflict e \<and> Some e \<in> set (faults s)"
  using reconcileDeletion_run [OF assms(1), of req s] assms(2) by blast

text \<open>
  Claim C3. \<^verbatim>\<open>IgnoreDeletingErrors\<close> returns nil exactly for nil, NotFound and Conflict, and
  returns any other error as it is. A reconcile that takes the deletion branch (the parent
  loaded with the deletion time stamp set and the finalizer present) never returns a
  NotFound or a Conflict: an error it returns is an error the API server forced on one of
  its calls, and when every forced outcome is nil, NotFound or Conflict it returns no
  error. Any other error forced on the first status update, on the second status update
  or on the update that removes the finalizer is returned, with no requeue requested in
  the result.
\<close>

theorem deletion_ignores_conflict_and_not_found:
  assumes load: "Get req s = (Inr m, s1)"
    and del: "DeletionTimestamp m \<noteq> None"
    and fin: "ContainsFinalizer m modelRegistryFinalizer"
    and ident: "(Namespace m, Name m) = req"
  shows "(IgnoreDeletingErrors err = None \<longleftrightarrow>
            err = None \<or> (\<exists>e. err = Some e \<and> (IsNotFound e \<or> IsConflict e)))
    \<and> (IgnoreDeletingErrors err \<noteq> None \<longrightarrow> IgnoreDeletingErrors err = err)
    \<and> (\<forall>e. snd (fst (Reconcile r req s)) = Some e \<longrightarrow>
          \<not> IsNotFound e \<and> \<not> IsConflict e \<and> Some e \<in> set (faults s1))
    \<and> ((\<forall>f \<in> set (faults s1). IgnoreDeletingErrors f = None) \<longrightarrow>
          snd (fst (Reconcile r req s)) = None)
    \<and> (\<forall>f1 rest. faults s1 = f1 # rest \<and> IgnoreDeletingErrors f1 \<noteq> None
            \<longrightarrow> fst (Reconcile r req s) = (\<lparr>Requeue = False\<rparr>, f1))
    \<and> (\<forall>f1 f2 f3 rest. faults s1 = f1 # f2 # f3 # rest
            \<and> IgnoreDeletingErrors f1 = None \<and> IgnoreDeletingErrors f2 = None
            \<and> IgnoreDeletingErrors f3 \<noteq> None
            \<longrightarrow> fst (Reconcile r req s) = (\<lparr>Requeue = False\<rparr>, f3))
    \<and> (\<forall>f1 f2 f3 f4 rest. faults s1 = f1 # f2 # f3 # f4 # rest
            \<and> IgnoreDeletingErrors f1 = None \<and> IgnoreDeletingErrors f2 = None
            \<and> IgnoreDeletingErrors f3 = None \<and> IgnoreDeletingErrors f4 \<noteq> None
            \<longrightarrow> fst (Reconcile r req s) = (\<lparr>Requeue = False\<rparr>, f4))"
proof -
  have stored: "registries s1 req = Some m"
    using Get_Inr [OF load] by simp
  have i1: "IgnoreDeletingErrors err = None \<longleftrightarrow>
            err = None \<or> (\<exists>e. err = Some e \<and> (IsNotFound e \<or> IsConflict e))"
    by (cases err) (simp_all add: IgnoreDeletingErrors_def)
  have i2: "IgnoreDeletingErrors err \<noteq> None \<longrightarrow> IgnoreDeletingErrors err = err"
    by (cases err) (simp_all add: IgnoreDeletingErrors_def)
  have ret: "\<forall>e. snd (fst (reconcileDeletion req m s1)) = Some e \<longrightarrow>
          \<not> IsNotFound e \<and> \<not> IsConflict e \<and> Some e \<in> set (faults s1)"
    using reconcileDeletion_error [OF fin] by blast
  have benign: "(\<forall>f \<in> set (faults s1). IgnoreDeletingErrors f = None) \<longrightarrow>
          snd (fst (reconcileDeletion req m s1)) = None"
  proof
    assume a: "\<forall>f \<in> set (faults s1). IgnoreDeletingErrors f = None"
    show "snd (fst (reconcileDeletion req m s1)) = None"
    proof (cases "snd (fst (reconcileDeletion req m s1))")
      case None
      then show ?thesis .
    next
      case (Some e)
      from reconcileDeletion_error [OF fin Some]
      have "\<not> IsNotFound e" "\<not> IsConflict e" "Some e \<in> set (faults s1)" by simp_all
      with a have "IgnoreDeletingErrors (Some e) = None" by blast
      with \<open>\<not> IsNotFound e\<close> \<open>\<not> IsConflict e\<close> show ?thesis
        by (simp add: IgnoreDeletingErrors_def)
    qed
  qed
  show ?thesis
    unfolding Reconcile_deleting [OF load del fin]
    using i1 i2 ret benign reconcileDeletion_fatal_writes [OF fin ident stored]
    by (intro conjI) blast+
qed

text \<open>
  Forced outcomes on the demo parent marked for deletion: conflicts and a NotFound on every
  call of the branch, and a time-out on each of the three writes.
\<close>

theorem deletion_ignores_conflict_and_not_found_witness:
  "IgnoreDeletingErrors (Some Conflict) = None
   \<and> IgnoreDeletingErrors (Some (Other ''timeout'')) = Some (Other ''timeout'')
   \<and> snd (fst (Reconcile demoReconciler demo
        (deletingCluster\<lparr>faults :=
           [None, Some Conflict, Some NotFound, Some Conflict, Some NotFound]\<rparr>))) = None
   \<and> fst (Reconcile demoReconciler demo
        (deletingCluster\<lparr>faults := [None, Some (Other ''timeout'')]\<rparr>)) =
       (\<lparr>Requeue = False\<rparr>, Some (Other ''timeout''))
   \<and> fst (Reconcile demoReconciler demo
        (deletingCluster\<lparr>faults := [None, Some Conflict, None, Some (Other ''timeout'')]\<rparr>)) =
       (\<lparr>Requeue = False\<rparr>, Some (Other ''timeout''))
   \<and> fst (Reconcile demoReconciler demo
        (deletingCluster\<lparr>faults :=
           [None, None, Some NotFound, Some Conflict, Some (Other ''timeout'')]\<rparr>)) =
       (\<lparr>Requeue = False\<rparr>, Some (Other ''timeout''))"
proof -
  have load: "Get demo (deletingCluster\<lparr>faults := None # fs\<rparr>) =
      (Inr deletingRegistry, deletingCluster\<lparr>faults := fs, calls := [GetRegistry demo]\<rparr>)" for fs
    using Get_deletingCluster [of "None # fs"] by simp
  have del: "DeletionTimestamp deletingRegistry \<noteq> None"
    by (simp add: deletingRegistry_facts)
  have i1: "IgnoreDeletingErrors (Some Conflict) = None"
    using deletion_ignores_conflict_and_not_found
        [OF load [of "[]"] del deletingRegistry_facts(2) deletingRegistry_facts(3),
          where r = demoReconciler and err = "Some Conflict"]
      by (simp add: IsConflict_def)
  have i2: "IgnoreDeletingErrors (Some (Other ''timeout'')) = Some (Other ''timeout'')"
    using deletion_ignores_conflict_and_not_found
        [OF load [of "[]"] del deletingRegistry_facts(2) deletingRegistry_facts(3),
          where r = demoReconciler and err = "Some (Other ''timeout'')"]
     
    by (simp add: IsConflict_def IsNotFound_def)
  have benign: "snd (fst (Reconcile demoReconciler demo
        (deletingCluster\<lparr>faults :=
           [None, Some Conflict, Some NotFound, Some Conflict, Some NotFound]\<rparr>))) = None"
    using deletion_ignores_conflict_and_not_found
        [OF load [of "[Some Conflict, Some NotFound, Some Conflict, Some NotFound]"] del deletingRegistry_facts(2) deletingRegistry_facts(3),
          where r = demoReconciler and err = None]
      i1
    by simp
  have w1: "fst (Reconcile demoReconciler demo
        (deletingCluster\<lparr>faults := [None, Some (Other ''timeout'')]\<rparr>)) =
       (\<lparr>Requeue = False\<rparr>, Some (Other ''timeout''))"
    using deletion_ignores_conflict_and_not_found
        [OF load [of "[Some (Other ''timeout'')]"] del deletingRegistry_facts(2) deletingRegistry_facts(3),
          where r = demoReconciler and err = None]
      i2 by simp
  have w2: "fst (Reconcile demoReconciler demo
        (deletingCluster\<lparr>faults := [None, Some Conflict, None, Some (Other ''timeout'')]\<rparr>)) =
       (\<lparr>Requeue = False\<rparr>, Some (Other ''timeout''))"
    using deletion_ignores_conflict_and_not_found
        [OF load [of "[Some Conflict, None, Some (Other ''timeout'')]"] del deletingRegistry_facts(2) deletingRegistry_facts(3),
          where r = demoReconciler and err = None]
      i1 i2 by simp
  have w3: "fst (Reconcile demoReconciler demo
        (deletingCluster\<lparr>faults :=
           [None, None, Some NotFound, Some Conflict, Some (Other ''timeout'')]\<rparr>)) =
       (\<lparr>Requeue = False\<rparr>, Some (Other ''timeout''))"
    using deletion_ignores_conflict_and_not_found
        [OF load [of "[None, Some NotFound, Some Conflict, Some (Other ''timeout'')]"] del deletingRegistry_facts(2) deletingRegistry_facts(3),
          where r = demoReconciler and err = None]
      i1 i2
    by simp
  show ?thesis using i1 i2 benign w1 w2 w3 by simp
qed

section \<open>The finalizer\<close>

text \<open>The normal path issues no update of the parent.\<close>

lemma quiet_refl: "quiet s s"
  by (simp add: quiet_def)

lemma quiet_trans: "quiet s s1 \<Longrightarrow> quiet s1 s2 \<Longrightarrow> quiet s s2"
  by (auto simp: quiet_def)

lemma quiet_call:
  "calls s' = calls s @ [c] \<Longrightarrow> (\<And>m. c \<noteq> UpdateRegistry m) \<Longrightarrow> quiet s s'"
  by (auto simp: quiet_def)

lemma ClientGet_quiet: "quiet s (snd (ClientGet t key s))"
proof (cases "ClientGet t key s")
  case (Pair res s')
  then have "calls s' = calls s @ [GetObject t key]"
    by (cases res) (auto dest: ClientGet_Inl ClientGet_Inr)
  then show ?thesis using Pair by (auto intro: quiet_call)
qed

lemma ClientCreate_quiet: "quiet s (snd (ClientCreate t obj s))"
proof -
  have "calls (snd (ClientCreate t obj s)) = calls s @ [CreateObject t obj]"
    by (auto simp: ClientCreate_def split: prod.splits option.splits dest: serve_result)
  then show ?thesis by (auto intro: quiet_call)
qed

lemma ClientUpdate_quiet: "quiet s (snd (ClientUpdate t obj s))"
proof -
  have "calls (snd (ClientUpdate t obj s)) = calls s @ [UpdateObject t obj]"
    by (auto simp: ClientUpdate_def split: prod.splits option.splits dest: serve_result)
  then show ?thesis by (auto intro: quiet_call)
qed

lemma Get_quiet: "quiet s (snd (Get key s))"
proof (cases "Get key s")
  case (Pair res s')
  then show ?thesis using Get_step(1) [OF Pair] by (auto intro: quiet_call)
qed

lemma StatusUpdate_quiet: "quiet s (snd (StatusUpdate x s))"
proof (cases "StatusUpdate x s")
  case (Pair res s')
  then show ?thesis using StatusUpdate_step(1) [OF Pair] by (auto intro: quiet_call)
qed

lemma Event_quiet: "quiet s (Event ty rs msg s)"
  by (auto simp: Event_step intro: quiet_call)

lemma ClientGet_q: "ClientGet t key s = (res, s') \<Longrightarrow> quiet s s'"
  using ClientGet_quiet [of s t key] by simp

lemma ClientCreate_q: "ClientCreate t obj s = (res, s') \<Longrightarrow> quiet s s'"
  using ClientCreate_quiet [of s t obj] by simp

lemma ClientUpdate_q: "ClientUpdate t obj s = (res, s') \<Longrightarrow> quiet s s'"
  using ClientUpdate_quiet [of s t obj] by simp

lemma Get_q: "Get key s = (res, s') \<Longrightarrow> quiet s s'"
  using Get_quiet [of s key] by simp

lemma StatusUpdate_q: "StatusUpdate x s = (res, s') \<Longrightarrow> quiet s s'"
  using StatusUpdate_quiet [of s x] by simp

lemma createOrUpdate_q: "createOrUpdate r t newObj s = (res, s') \<Longrightarrow> quiet s s'"
  apply (auto simp: createOrUpdate_def split: prod.splits sum.splits if_splits)
  apply (blast intro: quiet_trans ClientGet_q ClientCreate_q ClientUpdate_q)+
  done

lemma createOrUpdateResource_q:
  "createOrUpdateResource t r params registry templateName s = (res, s') \<Longrightarrow> quiet s s'"
  by (auto simp: createOrUpdateResource_def quiet_refl split: sum.splits
      dest: createOrUpdate_q)

lemma updateRegistryResources_q:
  "updateRegistryResources r params registry s = (res, s') \<Longrightarrow> quiet s s'"
  apply (auto simp: updateRegistryResources_def Let_def createOrUpdateServiceAccount_def
      createOrUpdateService_def createOrUpdateDeployment_def
      split: prod.splits option.splits)
  apply (blast intro: quiet_trans createOrUpdateResource_q)+
  done

lemma logResultAsEvent_quiet: "quiet s (logResultAsEvent registry result s)"
  by (cases result) (simp_all add: logResultAsEvent_def quiet_refl Event_quiet)

lemma setRegistryStatus_q: "setRegistryStatus r req result s = (res, s') \<Longrightarrow> quiet s s'"
  apply (auto simp: setRegistryStatus_def Let_def split: prod.splits sum.splits)
  apply (blast intro: quiet_trans Get_q ClientGet_q StatusUpdate_q)+
  done

lemma reconcileResources_q: "reconcileResources r req m s = (res, s') \<Longrightarrow> quiet s s'"
  apply (auto simp: reconcileResources_def Let_def split: prod.splits option.splits if_splits)
  apply (blast intro: quiet_trans updateRegistryResources_q setRegistryStatus_q
      logResultAsEvent_quiet)+
  done

lemma reconcileDeletion_calls:
  "\<exists>rest. calls (snd (reconcileDeletion req m s)) = calls s @ rest
     \<and> (\<forall>m'. UpdateRegistry m' \<in> set rest \<longrightarrow> modelRegistryFinalizer \<notin> set (Finalizers m'))"
proof (cases "ContainsFinalizer m modelRegistryFinalizer")
  case True
  from reconcileDeletion_run [OF True, of req s]
  obtain n msg m4 m5 where
    c: "calls (snd (reconcileDeletion req m s)) =
        calls s @ take n
          [UpdateRegistryStatus
             (m\<lparr>Conditions := SetStatusCondition (Conditions m) (degradedUnknown (Name m))\<rparr>),
           RecordEvent ''Warning'' ''Deleting'' msg,
           GetRegistry req,
           UpdateRegistryStatus m4,
           UpdateRegistry m5]"
    and r: "modelRegistryFinalizer \<notin> set (Finalizers m5)"
    by blast
  have "m' = m5"
    if "UpdateRegistry m' \<in> set (take n
          [UpdateRegistryStatus
             (m\<lparr>Conditions := SetStatusCondition (Conditions m) (degradedUnknown (Name m))\<rparr>),
           RecordEvent ''Warning'' ''Deleting'' msg,
           GetRegistry req,
           UpdateRegistryStatus m4,
           UpdateRegistry m5])" for m'
    using in_set_takeD [OF that] by simp
  with c r show ?thesis by blast
next
  case False
  then show ?thesis by (simp add: reconcileDeletion_def)
qed

lemma reconcileResources_calls:
  "\<exists>rest. calls (snd (reconcileResources r req m s)) = calls s @ rest
     \<and> (\<forall>m'. UpdateRegistry m' \<in> set rest \<longrightarrow> modelRegistryFinalizer \<notin> set (Finalizers m'))"
proof -
  have "quiet s (snd (reconcileResources r req m s))"
    by (cases "reconcileResources r req m s") (simp add: reconcileResources_q)
  then show ?thesis by (auto simp: quiet_def)
qed

lemma ensureFinalizer_absent:
  assumes "\<not> ContainsFinalizer m modelRegistryFinalizer"
  shows "ensureFinalizer m s =
     (case Update (m\<lparr>Finalizers := Finalizers m @ [modelRegistryFinalizer]\<rparr>) s of
        (Inl err, s1) \<Rightarrow> Inl ((\<lparr>Requeue = False\<rparr>, Some err), s1)
      | (Inr stored, s1) \<Rightarrow> Inr (stored, s1))"
  using assms by (simp add: ensureFinalizer_def AddFinalizer_def ContainsFinalizer_def)

text \<open>
  Claim C2, as the code has it. After the load, \<^verbatim>\<open>Reconcile\<close> adds the finalizer and issues
  the update that persists it whenever the loaded parent lacks the finalizer, whether or
  not its deletion time stamp is set; that update is the first call after the load, so
  ahead of all work on managed resources, and when it fails the reconcile returns its
  error and does nothing more. When the loaded parent has the finalizer, no update of the
  parent that carries the finalizer is issued.
\<close>

theorem finalizer_added_whenever_absent:
  assumes load: "Get req s = (Inr m, s1)"
  shows "(\<not> ContainsFinalizer m modelRegistryFinalizer \<longrightarrow>
      (\<exists>rest. calls (snd (Reconcile r req s)) =
         calls s @ GetRegistry req
           # UpdateRegistry (m\<lparr>Finalizers := Finalizers m @ [modelRegistryFinalizer]\<rparr>)
           # rest))
    \<and> (\<forall>err s2. \<not> ContainsFinalizer m modelRegistryFinalizer
          \<and> Update (m\<lparr>Finalizers := Finalizers m @ [modelRegistryFinalizer]\<rparr>) s1 = (Inl err, s2)
        \<longrightarrow> Reconcile r req s = ((\<lparr>Requeue = False\<rparr>, Some err), s2))
    \<and> (ContainsFinalizer m modelRegistryFinalizer \<longrightarrow>
      (\<exists>rest. calls (snd (Reconcile r req s)) = calls s @ GetRegistry req # rest
         \<and> (\<forall>m'. UpdateRegistry m' \<in> set rest \<longrightarrow>
               modelRegistryFinalizer \<notin> set (Finalizers m'))))"
proof (intro conjI impI allI)
  let ?added = "m\<lparr>Finalizers := Finalizers m @ [modelRegistryFinalizer]\<rparr>"
  have c1: "calls s1 = calls s @ [GetRegistry req]"
    using Get_step(1) [OF load] .
  assume absent: "\<not> ContainsFinalizer m modelRegistryFinalizer"
  obtain res s2 where u: "Update ?added s1 = (res, s2)"
    by (cases "Update ?added s1")
  have c2: "calls s2 = calls s @ [GetRegistry req, UpdateRegistry ?added]"
    using Update_step(1) [OF u] c1 by simp
  show "\<exists>rest. calls (snd (Reconcile r req s)) =
         calls s @ GetRegistry req # UpdateRegistry ?added # rest"
  proof (cases res)
    case (Inl err)
    then have "snd (Reconcile r req s) = s2"
      using load u by (simp add: Reconcile_def ensureFinalizer_absent [OF absent])
    then show ?thesis using c2 by simp
  next
    case (Inr stored)
    then have "snd (Reconcile r req s) =
        (if DeletionTimestamp stored \<noteq> None then snd (reconcileDeletion req stored s2)
         else snd (reconcileResources r req stored s2))"
      using load u by (simp add: Reconcile_def ensureFinalizer_absent [OF absent])
    then show ?thesis
      using reconcileDeletion_calls [of req stored s2]
        reconcileResources_calls [of r req stored s2] c2
      by (cases "DeletionTimestamp stored \<noteq> None") auto
  qed
next
  fix err s2
  assume "\<not> ContainsFinalizer m modelRegistryFinalizer
          \<and> Update (m\<lparr>Finalizers := Finalizers m @ [modelRegistryFinalizer]\<rparr>) s1 = (Inl err, s2)"
  then show "Reconcile r req s = ((\<lparr>Requeue = False\<rparr>, Some err), s2)"
    using load by (simp add: Reconcile_def ensureFinalizer_absent)
next
  have c1: "calls s1 = calls s @ [GetRegistry req]"
    using Get_step(1) [OF load] .
  assume present: "ContainsFinalizer m modelRegistryFinalizer"
  then have "snd (Reconcile r req s) =
        (if DeletionTimestamp m \<noteq> None then snd (reconcileDeletion req m s1)
         else snd (reconcileResources r req m s1))"
    using load by (simp add: Reconcile_def ensureFinalizer_present)
  then show "\<exists>rest. calls (snd (Reconcile r req s)) = calls s @ GetRegistry req # rest
         \<and> (\<forall>m'. UpdateRegistry m' \<in> set rest \<longrightarrow>
               modelRegistryFinalizer \<notin> set (Finalizers m'))"
    using reconcileDeletion_calls [of req m s1] reconcileResources_calls [of r req m s1] c1
    by (cases "DeletionTimestamp m \<noteq> None") auto
qed

text \<open>
  A new parent without the finalizer, with the update served and with the update in
  conflict; and the demo parent, which has the finalizer.
\<close>

theorem finalizer_added_whenever_absent_witness:
  "Get demo (emptyCluster\<lparr>registries :=
         (registries emptyCluster)(demo := Some (demoRegistry\<lparr>Finalizers := []\<rparr>))\<rparr>) =
     (Inr (demoRegistry\<lparr>Finalizers := []\<rparr>),
      emptyCluster\<lparr>registries :=
         (registries emptyCluster)(demo := Some (demoRegistry\<lparr>Finalizers := []\<rparr>)),
         calls := [GetRegistry demo]\<rparr>)
   \<and> (\<exists>rest. calls (snd (Reconcile demoReconciler demo
          (emptyCluster\<lparr>registries :=
             (registries emptyCluster)(demo := Some (demoRegistry\<lparr>Finalizers := []\<rparr>))\<rparr>))) =
        GetRegistry demo # UpdateRegistry demoRegistry # rest)
   \<and> fst (Reconcile demoReconciler demo
          (emptyCluster\<lparr>registries :=
             (registries emptyCluster)(demo := Some (demoRegistry\<lparr>Finalizers := []\<rparr>)),
             faults := [None, Some Conflict]\<rparr>)) =
       (\<lparr>Requeue = False\<rparr>, Some Conflict)
   \<and> (\<exists>rest. calls (snd (Reconcile demoReconciler demo demoCluster)) = GetRegistry demo # rest
         \<and> (\<forall>m'. UpdateRegistry m' \<in> set rest \<longrightarrow>
               modelRegistryFinalizer \<notin> set (Finalizers m')))"
proof -
  let ?fresh = "demoRegistry\<lparr>Finalizers := []\<rparr>"
  let ?s = "emptyCluster\<lparr>registries := (registries emptyCluster)(demo := Some ?fresh)\<rparr>"
  have load: "Get demo (?s\<lparr>faults := fs\<rparr>) =
      (Inr ?fresh, ?s\<lparr>faults := tl fs, calls := [GetRegistry demo]\<rparr>)"
    if "fs = [] \<or> hd fs = None" for fs
    using that
    by (cases fs) (auto simp add: Get_def serve_def issue_def emptyCluster_def)
  have plain: "?s\<lparr>faults := []\<rparr> = ?s"
    by (simp add: emptyCluster_def)
  have absent: "\<not> ContainsFinalizer ?fresh modelRegistryFinalizer"
    by (simp add: ContainsFinalizer_def)
  have added: "?fresh\<lparr>Finalizers := Finalizers ?fresh @ [modelRegistryFinalizer]\<rparr> = demoRegistry"
    by (simp add: demoRegistry_def)
  have conflict: "Update demoRegistry
       (?s\<lparr>faults := [Some Conflict], calls := [GetRegistry demo]\<rparr>) =
      (Inl Conflict,
       ?s\<lparr>faults := [], calls := [GetRegistry demo, UpdateRegistry demoRegistry]\<rparr>)"
    by (simp add: Update_def serve_def issue_def emptyCluster_def)
  have a: "\<exists>rest. calls (snd (Reconcile demoReconciler demo ?s)) =
        GetRegistry demo # UpdateRegistry demoRegistry # rest"
    using finalizer_added_whenever_absent [OF load [of "[]"], of demoReconciler]
      absent added plain
    by (simp add: emptyCluster_def)
  have b: "fst (Reconcile demoReconciler demo (?s\<lparr>faults := [None, Some Conflict]\<rparr>)) =
       (\<lparr>Requeue = False\<rparr>, Some Conflict)"
    using finalizer_added_whenever_absent [OF load [of "[None, Some Conflict]"], of demoReconciler]
      absent added conflict
    by simp
  have load2: "Get demo demoCluster =
      (Inr demoRegistry, demoCluster\<lparr>calls := [GetRegistry demo]\<rparr>)"
    by (simp add: Get_def serve_def issue_def demoCluster_def emptyCluster_def)
  have present: "ContainsFinalizer demoRegistry modelRegistryFinalizer"
    by (simp add: ContainsFinalizer_def demoRegistry_def)
  have c: "\<exists>rest. calls (snd (Reconcile demoReconciler demo demoCluster)) = GetRegistry demo # rest
         \<and> (\<forall>m'. UpdateRegistry m' \<in> set rest \<longrightarrow>
               modelRegistryFinalizer \<notin> set (Finalizers m'))"
    using finalizer_added_whenever_absent [OF load2, of demoReconciler] present
    by (simp add: demoCluster_def emptyCluster_def)
  show ?thesis
    using load [of "[]"] plain a b c by simp
qed

text \<open>
  Claim C2 as stated does not hold: for a parent that is stored with the deletion time
  stamp set and without the finalizer, \<^verbatim>\<open>Reconcile\<close> issues, right after the load, the
  update that adds the finalizer, and a store that serves the update persists it.
\<close>

theorem finalizer_added_despite_deletion_counterexample:
  "DeletionTimestamp unmarkedRegistry = Some 1
   \<and> \<not> ContainsFinalizer unmarkedRegistry modelRegistryFinalizer
   \<and> Get demo unmarkedCluster =
       (Inr unmarkedRegistry, unmarkedCluster\<lparr>calls := [GetRegistry demo]\<rparr>)
   \<and> take 2 (calls (snd (Reconcile demoReconciler demo unmarkedCluster))) =
       [GetRegistry demo,
        UpdateRegistry (unmarkedRegistry\<lparr>Finalizers := [modelRegistryFinalizer]\<rparr>)]
   \<and> map_option Finalizers
        (registries (snd (Update (unmarkedRegistry\<lparr>Finalizers := [modelRegistryFinalizer]\<rparr>)
                            (unmarkedCluster\<lparr>calls := [GetRegistry demo]\<rparr>))) demo) =
       Some [modelRegistryFinalizer]"
  by (simp add: Reconcile_def ensureFinalizer_def reconcileDeletion_def Get_def
      StatusUpdate_def Update_def serve_def issue_def unmarkedCluster_def emptyCluster_def
      unmarkedRegistry_def demoRegistry_def ContainsFinalizer_def AddFinalizer_def
      RemoveFinalizer_def doFinalizerOperationsForModelRegistry_def Event_def
      IgnoreDeletingErrors_def errorOf_def objectAfter_def demo_def Let_def)

end
